theory Spec2Isabelle
  imports Main
begin

section \<open>Python and NumPy primitives used by the driver\<close>

text \<open>
  The driver \<^verbatim>\<open>src/ennemi/_driver.py\<close> is embedded below. Observations are never
  inspected by the driver, only moved around, so their type is a parameter \<open>'a\<close>;
  the values the two estimators return have type \<open>'r\<close>. Lags, \<open>k\<close> and
  \<open>cond_lag\<close> are Python integers (\<open>int\<close>). Every \<^verbatim>\<open>raise\<close> is a value
  \<open>Inl e\<close> of the result type \<open>error + _\<close>, with the message of the source.
\<close>

datatype error = ValueError string | TypeError string | IndexError string

text \<open>
  A slice \<^verbatim>\<open>a[start:stop]\<close> of Python and NumPy: a negative bound counts from the
  end of the sequence, and both bounds are then clamped to \<open>0 .. len(a)\<close>. The slice is
  empty when the clamped stop is not after the clamped start.
\<close>

definition slice_bound :: "nat \<Rightarrow> int \<Rightarrow> nat" where
  "slice_bound n i = (if i < 0 then nat (int n + i) else min n (nat i))"

definition py_slice :: "'a list \<Rightarrow> int \<Rightarrow> int \<Rightarrow> 'a list" where
  "py_slice a start stop =
     (let lo = slice_bound (length a) start;
          hi = slice_bound (length a) stop
      in take (hi - lo) (drop lo a))"

text \<open>\<^verbatim>\<open>np.min\<close> and \<^verbatim>\<open>np.max\<close> of a one-dimensional integer array raise on an
  empty array.\<close>

fun np_min :: "int list \<Rightarrow> error + int" where
  "np_min [] =
     Inl (ValueError ''zero-size array to reduction operation minimum which has no identity'')"
| "np_min (l # ls) = Inr (fold min ls l)"

fun np_max :: "int list \<Rightarrow> error + int" where
  "np_max [] =
     Inl (ValueError ''zero-size array to reduction operation maximum which has no identity'')"
| "np_max (l # ls) = Inr (fold max ls l)"

text \<open>
  The argument \<open>x\<close> is a one-dimensional array, or a two-dimensional array of shape
  \<open>(N, nvar)\<close> given by its column count and its rows (every row of a NumPy array has
  that many entries). Arrays of other ranks are outside the model.
\<close>

datatype 'a xarr = X1 "'a list" | X2 nat "'a list list"

text \<open>\<^verbatim>\<open>x.shape[0]\<close>\<close>

fun shape0 :: "'a xarr \<Rightarrow> nat" where
  "shape0 (X1 v) = length v"
| "shape0 (X2 c rows) = length rows"

text \<open>\<^verbatim>\<open>x[:, j]\<close> for the rows of a two-dimensional array.\<close>

definition column :: "'a list list \<Rightarrow> nat \<Rightarrow> 'a list" where
  "column rows j = map (\<lambda>r. r ! j) rows"

text \<open>
  A mask is an array with a dtype: boolean, or not boolean. The non-boolean masks of the
  model are integer arrays (flags written as 0 and 1, say); NumPy reads an integer array
  used as an index as a list of positions.
\<close>

datatype mask_arr = BoolMask "bool list" | IntMask "int list"

fun mask_len :: "mask_arr \<Rightarrow> nat" where
  "mask_len (BoolMask bs) = length bs"
| "mask_len (IntMask js) = length js"

fun dtype_is_bool :: "mask_arr \<Rightarrow> bool" where
  "dtype_is_bool (BoolMask bs) = True"
| "dtype_is_bool (IntMask js) = False"

fun mask_slice :: "mask_arr \<Rightarrow> int \<Rightarrow> int \<Rightarrow> mask_arr" where
  "mask_slice (BoolMask bs) start stop = BoolMask (py_slice bs start stop)"
| "mask_slice (IntMask js) start stop = IntMask (py_slice js start stop)"

text \<open>
  \<^verbatim>\<open>a[m]\<close> for a one-dimensional \<open>a\<close>. NumPy turns a boolean index into the
  positions of its \<open>True\<close> entries and checks its length against the length of \<open>a\<close>
  only when the index is not empty: an empty boolean index selects nothing from any
  \<open>a\<close>, a non-empty one must be as long as \<open>a\<close> and keeps the entries at its
  \<open>True\<close> positions, in order. An integer index picks the entries at the listed
  positions, negative ones counting from the end.
\<close>

fun np_index :: "'a list \<Rightarrow> mask_arr \<Rightarrow> error + 'a list" where
  "np_index a (BoolMask bs) =
     (if bs = [] then Inr []
      else if length bs \<noteq> length a
      then Inl (IndexError ''boolean index did not match indexed array along axis 0'')
      else Inr (map fst (filter snd (zip a bs))))"
| "np_index a (IntMask js) =
     (if list_all (\<lambda>j. - int (length a) \<le> j \<and> j < int (length a)) js
      then Inr (map (\<lambda>j. a ! nat (if j < 0 then j + int (length a) else j)) js)
      else Inl (IndexError ''index is out of bounds for axis 0''))"

section \<open>The driver\<close>

subsection \<open>\<^verbatim>\<open>_check_parameters\<close>\<close>

definition check_parameters ::
  "'a xarr \<Rightarrow> 'a list \<Rightarrow> int \<Rightarrow> 'a list option \<Rightarrow> mask_arr option \<Rightarrow> error + unit" where
  "check_parameters x y k cond msk =
     (if shape0 x \<noteq> length y then Inl (ValueError ''x and y must have same length'')
      else if (case cond of None \<Rightarrow> False | Some c \<Rightarrow> shape0 x \<noteq> length c)
        then Inl (ValueError ''x and cond must have same length'')
      else if int (shape0 x) \<le> k
        then Inl (ValueError ''k must be smaller than number of observations'')
      else (case msk of
              None \<Rightarrow> Inr ()
            | Some m \<Rightarrow>
                if mask_len m \<noteq> length y
                  then Inl (ValueError ''mask length does not match y length'')
                else if \<not> dtype_is_bool m
                  then Inl (TypeError ''mask must contain only booleans'')
                else Inr ()))"

subsection \<open>\<^verbatim>\<open>_should_be_parallel\<close>\<close>

definition should_be_parallel ::
  "string option \<Rightarrow> (nat \<times> nat) list \<Rightarrow> 'a list \<Rightarrow> error + bool" where
  "should_be_parallel parallel indices y =
     (if parallel = Some ''always'' then Inr True
      else if parallel = Some ''disable'' then Inr False
      else if parallel \<noteq> None
        then Inl (ValueError ''unrecognized value for parallel argument'')
      else Inr (length indices > 1 \<and> length y > 200))"

subsection \<open>\<^verbatim>\<open>_lagged_mi\<close>\<close>

text \<open>
  The two slice expressions of \<^verbatim>\<open>_lagged_mi\<close>. The first is applied to \<open>x\<close> with the
  task's lag and to \<open>cond\<close> with \<open>lag + cond_lag\<close>; the second to \<open>y\<close> and to the mask.
\<close>

definition lag_window :: "'a list \<Rightarrow> int \<Rightarrow> int \<Rightarrow> int \<Rightarrow> 'a list" where
  "lag_window a L max_lag min_lag =
     py_slice a (max_lag - L) (int (length a) - L + min min_lag 0)"

definition y_window :: "'a list \<Rightarrow> int \<Rightarrow> int \<Rightarrow> 'a list" where
  "y_window y max_lag min_lag = py_slice y max_lag (int (length y) + min min_lag 0)"

text \<open>The task descriptor is the tuple
  \<^verbatim>\<open>(x, y, lag, max_lag, min_lag, k, mask, cond, cond_lag)\<close> of the source. The
  source's variable \<^verbatim>\<open>mask\<close> is written \<open>msk\<close> throughout, the name \<open>mask\<close>
  being taken by a constant of the library.\<close>

type_synonym 'a task =
  "'a list \<times> 'a list \<times> int \<times> int \<times> int \<times> int \<times> mask_arr option \<times> 'a list option \<times> int"

text \<open>\<^verbatim>\<open>a = a[mask_subset]\<close>, done only when there is a mask.\<close>

definition masked :: "mask_arr option \<Rightarrow> 'a list \<Rightarrow> error + 'a list" where
  "masked mask_subset a =
     (case mask_subset of None \<Rightarrow> Inr a | Some s \<Rightarrow> np_index a s)"

text \<open>The types of \<^verbatim>\<open>_estimate_single_mi\<close> and \<^verbatim>\<open>_estimate_conditional_mi\<close>, which the
  source imports from another module.\<close>

type_synonym ('a, 'r) estimator = "'a list \<Rightarrow> 'a list \<Rightarrow> int \<Rightarrow> error + 'r"

type_synonym ('a, 'r) cond_estimator = "'a list \<Rightarrow> 'a list \<Rightarrow> 'a list \<Rightarrow> int \<Rightarrow> error + 'r"

fun lagged_mi ::
  "('a, 'r) estimator \<Rightarrow> ('a, 'r) cond_estimator \<Rightarrow> 'a task \<Rightarrow> error + 'r" where
  "lagged_mi estimate_single_mi estimate_conditional_mi
       (x, y, lag, max_lag, min_lag, k, msk, cond, cond_lag) =
     (let mask_subset =
            map_option (\<lambda>m. mask_slice m max_lag (int (length y) + min min_lag 0)) msk
      in case masked mask_subset (lag_window x lag max_lag min_lag) of
           Inl e \<Rightarrow> Inl e
         | Inr xs \<Rightarrow>
        (case masked mask_subset (y_window y max_lag min_lag) of
           Inl e \<Rightarrow> Inl e
         | Inr ys \<Rightarrow>
        (case cond of
           None \<Rightarrow> estimate_single_mi xs ys k
         | Some c \<Rightarrow>
            (case masked mask_subset (lag_window c (lag + cond_lag) max_lag min_lag) of
               Inl e \<Rightarrow> Inl e
             | Inr zs \<Rightarrow> estimate_conditional_mi xs ys zs k))))"

subsection \<open>The worker pool\<close>

text \<open>
  \<^verbatim>\<open>ProcessPoolExecutor.map\<close> of Python's standard library submits one call per
  element, keeping the futures in submission order; the workers complete them in an
  order the caller does not control; leaving the \<^verbatim>\<open>with\<close> block waits for all of
  them; the results are then read from the futures in submission order. The order of
  completion is a parameter of the model: at each step the next entry of \<open>choices\<close>
  selects which of the pending calls completes (the first one once \<open>choices\<close> is used
  up), so that every order of completion is the order of some \<open>choices\<close>.
\<close>

function completion_order :: "nat list \<Rightarrow> nat list \<Rightarrow> nat list" where
  "completion_order choices pending =
     (if pending = [] then []
      else let i = pending ! (case choices of [] \<Rightarrow> 0 | c # _ \<Rightarrow> c mod length pending)
           in i # completion_order (tl choices) (remove1 i pending))"
  by pat_completeness auto
termination
proof (relation "measure (\<lambda>(choices, pending). length pending)")
  show "wf (measure (\<lambda>(choices, pending). length pending))"
    by simp
next
  fix choices :: "nat list" and pending :: "nat list" and i :: nat
  assume ne: "pending \<noteq> []"
    and i: "i = pending ! (case choices of [] \<Rightarrow> 0 | c # _ \<Rightarrow> c mod length pending)"
  have "(case choices of [] \<Rightarrow> 0 | c # _ \<Rightarrow> c mod length pending) < length pending"
    using ne by (cases choices) simp_all
  then have "i \<in> set pending"
    using i by simp
  then have "length (remove1 i pending) < length pending"
    using ne by (simp add: length_remove1)
  then show "((tl choices, remove1 i pending), (choices, pending))
      \<in> measure (\<lambda>(choices, pending). length pending)"
    by simp
qed

declare completion_order.simps [simp del]

definition executor_map :: "nat list \<Rightarrow> ('t \<Rightarrow> 'r) \<Rightarrow> 't list \<Rightarrow> 'r list" where
  "executor_map choices f params =
     (let futures =
            fold (\<lambda>i fs. fs[i := Some (f (params ! i))])
              (completion_order choices [0..<length params])
              (replicate (length params) None)
      in map the futures)"

subsection \<open>The result array\<close>

text \<open>
  \<^verbatim>\<open>np.empty((n, m))\<close> is a grid of cells not yet written (\<open>None\<close>);
  \<^verbatim>\<open>result[index] = res\<close> writes one cell and raises outside the grid.
\<close>

type_synonym 'r grid = "'r option list list"

definition np_empty :: "nat \<Rightarrow> nat \<Rightarrow> 'r grid" where
  "np_empty n m = replicate n (replicate m None)"

definition set_cell :: "'r grid \<Rightarrow> nat \<times> nat \<Rightarrow> 'r \<Rightarrow> error + 'r grid" where
  "set_cell g index r =
     (if fst index < length g \<and> snd index < length (g ! fst index)
      then Inr (g[fst index := (g ! fst index)[snd index := Some r]])
      else Inl (IndexError ''index is out of bounds''))"

text \<open>The loop \<^verbatim>\<open>for index, res in zip(indices, conc_result): result[index] = res\<close>.
  Reading the result of a task that raised raises its error, in both modes.\<close>

fun collect :: "'r grid \<Rightarrow> ((nat \<times> nat) \<times> (error + 'r)) list \<Rightarrow> error + 'r grid" where
  "collect g [] = Inr g"
| "collect g ((index, res) # rest) =
     (case res of
        Inl e \<Rightarrow> Inl e
      | Inr r \<Rightarrow> (case set_cell g index r of Inl e \<Rightarrow> Inl e | Inr g' \<Rightarrow> collect g' rest))"

subsection \<open>\<^verbatim>\<open>estimate_mi\<close>\<close>

text \<open>The argument \<^verbatim>\<open>lag\<close> is one integer or a one-dimensional array of integers. The
  64-bit range of the entries of a NumPy integer array is not modelled: lags are
  compared with the number of observations, and a call with a lag outside that range
  is rejected.\<close>

datatype lag_arg = LagInt int | LagArr "int list"

fun lag_array :: "lag_arg \<Rightarrow> int list" where
  "lag_array (LagInt l) = [l]"
| "lag_array (LagArr ls) = ls"

text \<open>\<^verbatim>\<open>min_lag\<close> and \<^verbatim>\<open>max_lag\<close>, in this order.\<close>

definition lag_bounds :: "int list \<Rightarrow> int \<Rightarrow> error + (int \<times> int)" where
  "lag_bounds lag cond_lag =
     (case np_min lag of Inl e \<Rightarrow> Inl e | Inr a \<Rightarrow>
     (case np_min (map (\<lambda>l. l + cond_lag) lag) of Inl e \<Rightarrow> Inl e | Inr b \<Rightarrow>
     (case np_max lag of Inl e \<Rightarrow> Inl e | Inr c \<Rightarrow>
     (case np_max (map (\<lambda>l. l + cond_lag) lag) of Inl e \<Rightarrow> Inl e | Inr d \<Rightarrow>
        Inr (min a b, max c d)))))"

text \<open>The condition under which \<^verbatim>\<open>estimate_mi\<close> raises "lag is too large".\<close>

definition lag_too_large :: "int \<Rightarrow> int \<Rightarrow> nat \<Rightarrow> bool" where
  "lag_too_large min_lag max_lag size_y =
     ((max_lag - min_lag \<ge> int size_y) \<or> (max_lag \<ge> int size_y) \<or> (min_lag \<le> - int size_y))"

definition nvar :: "'a xarr \<Rightarrow> nat" where
  "nvar x = (case x of X1 v \<Rightarrow> 1 | X2 c rows \<Rightarrow> c)"

text \<open>\<^verbatim>\<open>list(itertools.product(range(n), range(m)))\<close>\<close>

definition task_indices :: "nat \<Rightarrow> nat \<Rightarrow> (nat \<times> nat) list" where
  "task_indices n m = List.product [0..<n] [0..<m]"

definition task_params ::
  "'a xarr \<Rightarrow> 'a list \<Rightarrow> int list \<Rightarrow> int \<Rightarrow> int \<Rightarrow> int \<Rightarrow> mask_arr option \<Rightarrow>
   'a list option \<Rightarrow> int \<Rightarrow> (nat \<times> nat) list \<Rightarrow> 'a task list" where
  "task_params x y lag max_lag min_lag k msk cond cond_lag indices =
     (case x of
        X1 v \<Rightarrow> map (\<lambda>l. (v, y, l, max_lag, min_lag, k, msk, cond, cond_lag)) lag
      | X2 c rows \<Rightarrow>
          map (\<lambda>i. (column rows (snd i), y, lag ! fst i, max_lag, min_lag, k, msk, cond,
                     cond_lag)) indices)"

text \<open>The series of variable \<open>j\<close> of \<open>x\<close>: \<open>x\<close> itself when it is one-dimensional,
  else its column \<open>j\<close>. This is what the two branches above put into a task.\<close>

definition variable :: "'a xarr \<Rightarrow> nat \<Rightarrow> 'a list" where
  "variable x j = (case x of X1 v \<Rightarrow> v | X2 c rows \<Rightarrow> column rows j)"

text \<open>
  The estimators \<^verbatim>\<open>_estimate_single_mi\<close> and \<^verbatim>\<open>_estimate_conditional_mi\<close> live in
  another module and are parameters here, as is the pool's order of completion. The
  relabelling of the result for a pandas input changes no value and is left out.
\<close>

definition estimate_mi ::
  "('a, 'r) estimator \<Rightarrow> ('a, 'r) cond_estimator \<Rightarrow> nat list \<Rightarrow>
   'a list \<Rightarrow> 'a xarr \<Rightarrow> lag_arg \<Rightarrow> int \<Rightarrow> 'a list option \<Rightarrow> int \<Rightarrow> mask_arr option \<Rightarrow>
   string option \<Rightarrow> error + 'r grid" where
  "estimate_mi estimate_single_mi estimate_conditional_mi choices
       y x lag_arg k cond cond_lag msk parallel =
     (let lag = lag_array lag_arg in
      case check_parameters x y k cond msk of
        Inl e \<Rightarrow> Inl e
      | Inr u \<Rightarrow>
     (case lag_bounds lag cond_lag of
        Inl e \<Rightarrow> Inl e
      | Inr (min_lag, max_lag) \<Rightarrow>
          if lag_too_large min_lag max_lag (length y)
          then Inl (ValueError ''lag is too large, no observations left'')
          else
           (let indices = task_indices (length lag) (nvar x);
                params = task_params x y lag max_lag min_lag k msk cond cond_lag indices
            in (case should_be_parallel parallel indices y of
                 Inl e \<Rightarrow> Inl e
               | Inr par \<Rightarrow>
                   let conc_result =
                         (if par
                          then executor_map choices
                                 (lagged_mi estimate_single_mi estimate_conditional_mi) params
                          else map (lagged_mi estimate_single_mi estimate_conditional_mi)
                                 params)
                   in collect (np_empty (length lag) (nvar x)) (zip indices conc_result)))))"

subsection \<open>Estimators for the examples\<close>

text \<open>
  Two estimators that return the windows they are given, so that an example shows what
  the driver hands to the estimator. Observations are integers in the examples.
\<close>

definition probe :: "(int, int list \<times> int list \<times> int list) estimator" where
  "probe xs ys k = Inr (xs, ys, [])"

definition cprobe :: "(int, int list \<times> int list \<times> int list) cond_estimator" where
  "cprobe xs ys zs k = Inr (xs, ys, zs)"

section \<open>Auxiliary facts\<close>

subsection \<open>Slices, minima and maxima\<close>

lemma slice_bound_inrange: "0 \<le> i \<Longrightarrow> i \<le> int n \<Longrightarrow> slice_bound n i = nat i"
  by (simp add: slice_bound_def)

lemma py_slice_inrange:
  assumes "0 \<le> a" "a \<le> b" "b \<le> int (length xs)"
  shows "py_slice xs a b = map ((!) xs) [nat a..<nat b]"
proof -
  have lo: "slice_bound (length xs) a = nat a"
    using assms by (simp add: slice_bound_inrange)
  have hi: "slice_bound (length xs) b = nat b"
    using assms by (simp add: slice_bound_inrange)
  have "take (nat b - nat a) (drop (nat a) xs) = map ((!) xs) [nat a..<nat b]"
  proof (rule nth_equalityI)
    show "length (take (nat b - nat a) (drop (nat a) xs)) = length (map ((!) xs) [nat a..<nat b])"
      using assms by simp
  next
    fix i assume "i < length (take (nat b - nat a) (drop (nat a) xs))"
    then have i: "i < nat b - nat a"
      by simp
    then show "take (nat b - nat a) (drop (nat a) xs) ! i = map ((!) xs) [nat a..<nat b] ! i"
      using assms by simp
  qed
  then show ?thesis
    by (simp add: py_slice_def lo hi)
qed

lemma length_py_slice_inrange:
  "0 \<le> a \<Longrightarrow> a \<le> b \<Longrightarrow> b \<le> int (length xs) \<Longrightarrow> length (py_slice xs a b) = nat (b - a)"
  by (simp add: py_slice_inrange nat_diff_distrib)

lemma py_slice_wrapped_empty:
  "a < 0 \<Longrightarrow> 0 \<le> b \<Longrightarrow> b \<le> int (length xs) + a \<Longrightarrow> py_slice xs a b = []"
  by (auto simp: py_slice_def slice_bound_def)

lemma fold_min_Min: "fold min ls (l::int) = Min (set (l # ls))"
  by (simp only: Min.set_eq_fold)

lemma fold_max_Max: "fold max ls (l::int) = Max (set (l # ls))"
  by (simp only: Max.set_eq_fold)

lemma np_min_Inr: "lag \<noteq> [] \<Longrightarrow> np_min lag = Inr (Min (set lag))"
proof (cases lag)
  case Nil
  assume "lag \<noteq> []"
  with Nil show ?thesis by simp
next
  case (Cons l ls)
  then show ?thesis by (simp only: np_min.simps fold_min_Min)
qed

lemma np_max_Inr: "lag \<noteq> [] \<Longrightarrow> np_max lag = Inr (Max (set lag))"
proof (cases lag)
  case Nil
  assume "lag \<noteq> []"
  with Nil show ?thesis by simp
next
  case (Cons l ls)
  then show ?thesis by (simp only: np_max.simps fold_max_Max)
qed

lemma Min_shift:
  assumes "lag \<noteq> []"
  shows "Min (set (map (\<lambda>l. l + c) lag)) = Min (set lag) + (c::int)"
proof -
  have "mono (\<lambda>l::int. l + c)"
    by (simp add: mono_def)
  then have "Min (set lag) + c = Min ((\<lambda>l. l + c) ` set lag)"
    using assms by (intro mono_Min_commute) simp_all
  then show ?thesis by simp
qed

lemma Max_shift:
  assumes "lag \<noteq> []"
  shows "Max (set (map (\<lambda>l. l + c) lag)) = Max (set lag) + (c::int)"
proof -
  have "mono (\<lambda>l::int. l + c)"
    by (simp add: mono_def)
  then have "Max (set lag) + c = Max ((\<lambda>l. l + c) ` set lag)"
    using assms by (intro mono_Max_commute) simp_all
  then show ?thesis by simp
qed

lemma lag_bounds_nonempty:
  assumes "lag \<noteq> []"
  shows "lag_bounds lag c =
    Inr (min (Min (set lag)) (Min (set lag) + c), max (Max (set lag)) (Max (set lag) + c))"
  using assms
  by (simp add: lag_bounds_def np_min_Inr np_max_Inr Min_shift Max_shift del: set_map)

lemma lag_bounds_empty: "\<exists>e. lag_bounds [] c = Inl e"
  by (simp add: lag_bounds_def)

lemma lag_bounds_InrD:
  assumes "lag_bounds lag c = Inr (mn, mx)"
  shows "lag \<noteq> []"
    and "mn = min (Min (set lag)) (Min (set lag) + c)"
    and "mx = max (Max (set lag)) (Max (set lag) + c)"
proof -
  show ne: "lag \<noteq> []"
    using assms lag_bounds_empty [of c] by auto
  show "mn = min (Min (set lag)) (Min (set lag) + c)"
    using assms lag_bounds_nonempty [OF ne, of c] by simp
  show "mx = max (Max (set lag)) (Max (set lag) + c)"
    using assms lag_bounds_nonempty [OF ne, of c] by simp
qed

lemma lag_bounds_member:
  assumes "lag_bounds lag c = Inr (mn, mx)" and "L \<in> set lag"
  shows "mn \<le> L" "L \<le> mx" "mn \<le> L + c" "L + c \<le> mx"
proof -
  have lo: "Min (set lag) \<le> L" and hi: "L \<le> Max (set lag)"
    using assms(2) by simp_all
  show "mn \<le> L" "L \<le> mx" "mn \<le> L + c" "L + c \<le> mx"
    using lo hi lag_bounds_InrD(2,3) [OF assms(1)] by linarith+
qed


subsection \<open>Windows\<close>

lemma lag_window_inrange:
  assumes "\<not> lag_too_large mn mx (length a)" and "mn \<le> L" and "L \<le> mx"
  shows "lag_window a L mx mn =
           map ((!) a) [nat (mx - L)..<nat (int (length a) - L + min mn 0)]"
    and "length (lag_window a L mx mn) = nat (int (length a) - mx + min mn 0)"
    and "0 < int (length a) - mx + min mn 0"
proof -
  have r: "0 \<le> mx - L" "mx - L \<le> int (length a) - L + min mn 0"
    "int (length a) - L + min mn 0 \<le> int (length a)"
    using assms by (auto simp: lag_too_large_def min_def)
  show "lag_window a L mx mn =
           map ((!) a) [nat (mx - L)..<nat (int (length a) - L + min mn 0)]"
    unfolding lag_window_def using r by (rule py_slice_inrange)
  have "length (lag_window a L mx mn) = nat (int (length a) - L + min mn 0 - (mx - L))"
    unfolding lag_window_def using r by (rule length_py_slice_inrange)
  then show "length (lag_window a L mx mn) = nat (int (length a) - mx + min mn 0)"
    by (simp add: algebra_simps)
  show "0 < int (length a) - mx + min mn 0"
    using assms by (auto simp: lag_too_large_def min_def)
qed

lemma y_window_inrange:
  assumes "\<not> lag_too_large mn mx (length y)" and "0 \<le> mx"
  shows "y_window y mx mn = map ((!) y) [nat mx..<nat (int (length y) + min mn 0)]"
    and "length (y_window y mx mn) = nat (int (length y) - mx + min mn 0)"
proof -
  have r: "0 \<le> mx" "mx \<le> int (length y) + min mn 0"
    "int (length y) + min mn 0 \<le> int (length y)"
    using assms by (auto simp: lag_too_large_def min_def)
  show "y_window y mx mn = map ((!) y) [nat mx..<nat (int (length y) + min mn 0)]"
    unfolding y_window_def using r by (rule py_slice_inrange)
  have "length (y_window y mx mn) = nat (int (length y) + min mn 0 - mx)"
    unfolding y_window_def using r by (rule length_py_slice_inrange)
  then show "length (y_window y mx mn) = nat (int (length y) - mx + min mn 0)"
    by (simp add: algebra_simps)
qed

lemma y_window_wrapped:
  assumes "\<not> lag_too_large mn mx (length y)" and "mx < 0" and "mn \<le> mx"
  shows "y_window y mx mn = []"
proof -
  have "0 \<le> int (length y) + min mn 0" "int (length y) + min mn 0 \<le> int (length y) + mx"
    using assms by (auto simp: lag_too_large_def min_def)
  with assms(2) show ?thesis
    unfolding y_window_def by (intro py_slice_wrapped_empty)
qed



subsection \<open>The worker pool returns what the sequential map returns\<close>

lemma insert_remove1: "i \<in> set xs \<Longrightarrow> insert i (set (remove1 i xs)) = set xs"
  by (induction xs) auto

lemma set_completion_order: "set (completion_order choices pending) = set pending"
proof (induction choices pending rule: completion_order.induct)
  case (1 choices pending)
  show ?case
  proof (cases "pending = []")
    case True
    then show ?thesis
      by (subst completion_order.simps) simp
  next
    case False
    define i where "i = pending ! (case choices of [] \<Rightarrow> 0 | c # _ \<Rightarrow> c mod length pending)"
    have "(case choices of [] \<Rightarrow> 0 | c # _ \<Rightarrow> c mod length pending) < length pending"
      using False by (cases choices) simp_all
    then have mem: "i \<in> set pending"
      by (simp add: i_def)
    have IH: "set (completion_order (tl choices) (remove1 i pending)) = set (remove1 i pending)"
      using "1.IH" [OF False i_def] .
    have "completion_order choices pending =
            i # completion_order (tl choices) (remove1 i pending)"
      using False by (subst completion_order.simps) (simp add: i_def Let_def)
    then show ?thesis
      using IH mem by (simp add: insert_remove1)
  qed
qed

lemma length_fold_futures:
  "length (fold (\<lambda>i fs. fs[i := Some (f (ps ! i))]) order fs) = length fs"
  by (induction order arbitrary: fs) simp_all

lemma nth_fold_futures:
  "i < length fs \<Longrightarrow>
   fold (\<lambda>i fs. fs[i := Some (f (ps ! i))]) order fs ! i =
     (if i \<in> set order then Some (f (ps ! i)) else fs ! i)"
proof (induction order arbitrary: fs)
  case Nil
  then show ?case by simp
next
  case (Cons j order)
  have "i < length (fs[j := Some (f (ps ! j))])"
    using Cons.prems by simp
  from Cons.IH [OF this] show ?case
    using Cons.prems by (cases "i = j") simp_all
qed

lemma executor_map_eq_map: "executor_map choices f ps = map f ps"
proof (rule nth_equalityI)
  show "length (executor_map choices f ps) = length (map f ps)"
    by (simp add: executor_map_def length_fold_futures)
next
  fix i assume "i < length (executor_map choices f ps)"
  then have i: "i < length ps"
    by (simp add: executor_map_def length_fold_futures)
  then have "i \<in> set (completion_order choices [0..<length ps])"
    by (simp add: set_completion_order)
  then show "executor_map choices f ps ! i = map f ps ! i"
    using i by (simp add: executor_map_def length_fold_futures nth_fold_futures)
qed


text \<open>The model of the pool does reorder: with the choices \<open>1, 0\<close> the second of
  three calls completes first.\<close>

lemma completion_order_example: "completion_order [1, 0] [0..<3] = [1, 0, 2]"
  by code_simp

subsection \<open>Filling the result array\<close>

lemma set_cell_InrD:
  assumes "set_cell g ix r = Inr g'"
  shows "fst ix < length g" and "snd ix < length (g ! fst ix)"
    and "g' = g[fst ix := (g ! fst ix)[snd ix := Some r]]"
  using assms by (auto simp: set_cell_def split: if_splits)

lemma set_cell_shape:
  assumes "set_cell g ix r = Inr g'"
  shows "length g' = length g" and "length (g' ! i) = length (g ! i)"
proof -
  note d = set_cell_InrD [OF assms]
  show "length g' = length g"
    by (simp add: d(3))
  show "length (g' ! i) = length (g ! i)"
    using d(1) by (cases "i = fst ix") (simp_all add: d(3))
qed

lemma set_cell_same:
  assumes "set_cell g ix r = Inr g'"
  shows "g' ! fst ix ! snd ix = Some r"
  using set_cell_InrD [OF assms] by simp

lemma set_cell_other:
  assumes "set_cell g ix r = Inr g'" and "(i, j) \<noteq> ix"
  shows "g' ! i ! j = g ! i ! j"
proof (cases "i = fst ix")
  case True
  with assms(2) have "j \<noteq> snd ix"
    by (cases ix) auto
  with True set_cell_InrD [OF assms(1)] show ?thesis
    by simp
next
  case False
  with set_cell_InrD [OF assms(1)] show ?thesis
    by simp
qed

lemma collect_cells:
  assumes "collect g0 (zip idxs rs) = Inr g" and "length rs = length idxs" and "distinct idxs"
  shows "length g = length g0 \<and> (\<forall>i. length (g ! i) = length (g0 ! i))
       \<and> (\<forall>i j. (i, j) \<notin> set idxs \<longrightarrow> g ! i ! j = g0 ! i ! j)
       \<and> (\<forall>p<length idxs. \<exists>r. rs ! p = Inr r \<and> g ! fst (idxs ! p) ! snd (idxs ! p) = Some r)"
  using assms
proof (induction idxs arbitrary: rs g0)
  case Nil
  then show ?case by simp
next
  case (Cons ix idxs)
  from Cons.prems(2) obtain res rs' where rs: "rs = res # rs'" and len: "length rs' = length idxs"
    by (cases rs) auto
  from Cons.prems(1) rs obtain r where res: "res = Inr r"
    by (cases res) auto
  from Cons.prems(1) rs res obtain g1 where g1: "set_cell g0 ix r = Inr g1"
      and rest: "collect g1 (zip idxs rs') = Inr g"
    by (cases "set_cell g0 ix r") auto
  from Cons.prems(3) have dist: "distinct idxs" and fresh: "ix \<notin> set idxs"
    by simp_all
  note IH = Cons.IH [OF rest len dist]
  have shape: "length g = length g0" "\<And>i. length (g ! i) = length (g0 ! i)"
    using IH set_cell_shape [OF g1] by simp_all
  have other: "g ! i ! j = g0 ! i ! j" if "(i, j) \<notin> set (ix # idxs)" for i j
  proof -
    from that have "(i, j) \<notin> set idxs" and "(i, j) \<noteq> ix"
      by auto
    then show ?thesis
      using IH set_cell_other [OF g1] by simp
  qed
  have cells: "\<exists>r'. rs ! p = Inr r' \<and> g ! fst ((ix # idxs) ! p) ! snd ((ix # idxs) ! p) = Some r'"
    if "p < length (ix # idxs)" for p
  proof (cases p)
    case 0
    have "(fst ix, snd ix) \<notin> set idxs"
      using fresh by simp
    then have "g ! fst ix ! snd ix = g1 ! fst ix ! snd ix"
      using IH by blast
    then show ?thesis
      using 0 rs res set_cell_same [OF g1] by simp
  next
    case (Suc q)
    with that have "q < length idxs"
      by simp
    with IH Suc rs show ?thesis
      by simp
  qed
  from shape other cells show ?case
    by blast
qed

lemma task_indices_nth:
  assumes "i < n" and "j < m"
  shows "i * m + j < length (task_indices n m)" and "task_indices n m ! (i * m + j) = (i, j)"
proof -
  have "i * m + j < (i + 1) * m"
    using assms(2) by simp
  also have "\<dots> \<le> n * m"
    using assms(1) by (intro mult_le_mono1) simp
  finally have lt: "i * m + j < n * m" .
  then show "i * m + j < length (task_indices n m)"
    by (simp add: task_indices_def)
  have "List.product [0..<n] [0..<m] ! (i * m + j) =
          ([0..<n] ! ((i * m + j) div length [0..<m]), [0..<m] ! ((i * m + j) mod length [0..<m]))"
    using lt by (intro product_nth) simp
  then show "task_indices n m ! (i * m + j) = (i, j)"
    using assms by (simp add: task_indices_def)
qed

lemma distinct_task_indices: "distinct (task_indices n m)"
  by (simp add: task_indices_def distinct_product)

lemma length_task_indices: "length (task_indices n m) = n * m"
  by (simp add: task_indices_def)


subsection \<open>The tasks of a call\<close>

lemma length_task_params:
  "length (task_params x y lag mx mn k msk cond c (task_indices (length lag) (nvar x))) =
     length lag * nvar x"
  by (cases x) (simp_all add: task_params_def nvar_def length_task_indices)

lemma task_params_nth:
  assumes "i < length lag" and "j < nvar x"
  shows "task_params x y lag mx mn k msk cond c (task_indices (length lag) (nvar x))
           ! (i * nvar x + j) = (variable x j, y, lag ! i, mx, mn, k, msk, cond, c)"
proof (cases x)
  case (X1 v)
  with assms show ?thesis
    by (simp add: task_params_def nvar_def variable_def)
next
  case (X2 n rows)
  with assms have j: "j < n"
    by (simp add: nvar_def)
  note ix = task_indices_nth [OF assms(1) j]
  show ?thesis
    using X2 ix by (simp add: task_params_def nvar_def variable_def)
qed

lemma estimate_mi_run:
  assumes "check_parameters x y k cond msk = Inr u"
    and "lag_bounds (lag_array lag) c = Inr (mn, mx)"
    and "\<not> lag_too_large mn mx (length y)"
    and "should_be_parallel parallel (task_indices (length (lag_array lag)) (nvar x)) y = Inr par"
  shows "estimate_mi est cest choices y x lag k cond c msk parallel =
     collect (np_empty (length (lag_array lag)) (nvar x))
       (zip (task_indices (length (lag_array lag)) (nvar x))
          (map (lagged_mi est cest)
             (task_params x y (lag_array lag) mx mn k msk cond c
                (task_indices (length (lag_array lag)) (nvar x)))))"
  using assms by (simp add: estimate_mi_def Let_def executor_map_eq_map)

lemma estimate_mi_InrD:
  assumes "estimate_mi est cest choices y x lag k cond c msk parallel = Inr g"
  obtains mn mx par where "check_parameters x y k cond msk = Inr ()"
    and "lag_bounds (lag_array lag) c = Inr (mn, mx)"
    and "\<not> lag_too_large mn mx (length y)"
    and "should_be_parallel parallel (task_indices (length (lag_array lag)) (nvar x)) y = Inr par"
  using assms
  by (auto simp: estimate_mi_def Let_def split: sum.splits prod.splits if_splits)

subsection \<open>What the validator guarantees\<close>

lemma check_parameters_InrD:
  assumes "check_parameters x y k cond msk = Inr u"
  shows "shape0 x = length y" and "cond = Some z \<Longrightarrow> length z = length y"
    and "k < int (length y)"
    and "msk = Some m \<Longrightarrow> mask_len m = length y \<and> dtype_is_bool m"
  using assms
  by (auto simp: check_parameters_def split: if_splits option.splits)

lemma length_variable: "length (variable x j) = shape0 x"
  by (cases x) (simp_all add: variable_def column_def)

subsection \<open>Evaluating a call\<close>

lemma task_indices_single: "task_indices (Suc 0) (Suc 0) = [(0, 0)]"
  by (simp add: task_indices_def)

lemmas call_defs = estimate_mi_def check_parameters_def lag_bounds_def lag_too_large_def
  task_params_def should_be_parallel_def np_empty_def set_cell_def nvar_def Let_def

lemmas window_defs = lag_window_def y_window_def py_slice_def slice_bound_def masked_def

subsection \<open>Calls that fail before the tasks\<close>

lemma estimate_mi_invalid:
  "check_parameters x y k cond msk = Inl e \<Longrightarrow>
   estimate_mi est cest choices y x lag k cond c msk parallel = Inl e"
  by (simp add: estimate_mi_def)

lemma estimate_mi_no_lags:
  "lag_bounds (lag_array lag) c = Inl e \<Longrightarrow> check_parameters x y k cond msk = Inr u \<Longrightarrow>
   estimate_mi est cest choices y x lag k cond c msk parallel = Inl e"
  by (simp add: estimate_mi_def)

lemma estimate_mi_lag_too_large:
  "check_parameters x y k cond msk = Inr u \<Longrightarrow> lag_bounds (lag_array lag) c = Inr (mn, mx) \<Longrightarrow>
   lag_too_large mn mx (length y) \<Longrightarrow>
   estimate_mi est cest choices y x lag k cond c msk parallel =
     Inl (ValueError ''lag is too large, no observations left'')"
  by (simp add: estimate_mi_def)

lemma estimate_mi_unrecognized:
  "check_parameters x y k cond msk = Inr u \<Longrightarrow> lag_bounds (lag_array lag) c = Inr (mn, mx) \<Longrightarrow>
   \<not> lag_too_large mn mx (length y) \<Longrightarrow>
   should_be_parallel parallel (task_indices (length (lag_array lag)) (nvar x)) y = Inl e \<Longrightarrow>
   estimate_mi est cest choices y x lag k cond c msk parallel = Inl e"
  by (simp add: estimate_mi_def Let_def)

lemma lag_bounds_Min_Max:
  assumes "lag_bounds lags c = Inr (mn, mx)"
  shows "mn = Min (set lags \<union> (\<lambda>l. l + c) ` set lags)"
    and "mx = Max (set lags \<union> (\<lambda>l. l + c) ` set lags)"
proof -
  note d = lag_bounds_InrD [OF assms]
  have ne: "set lags \<noteq> {}" "(\<lambda>l. l + c) ` set lags \<noteq> {}"
    using d(1) by simp_all
  have "Min (set lags \<union> (\<lambda>l. l + c) ` set lags) =
          min (Min (set lags)) (Min ((\<lambda>l. l + c) ` set lags))"
    using ne by (intro Min_Un) simp_all
  also have "Min ((\<lambda>l. l + c) ` set lags) = Min (set lags) + c"
    using Min_shift [OF d(1), of c] by simp
  finally show "mn = Min (set lags \<union> (\<lambda>l. l + c) ` set lags)"
    using d(2) by simp
  have "Max (set lags \<union> (\<lambda>l. l + c) ` set lags) =
          max (Max (set lags)) (Max ((\<lambda>l. l + c) ` set lags))"
    using ne by (intro Max_Un) simp_all
  also have "Max ((\<lambda>l. l + c) ` set lags) = Max (set lags) + c"
    using Max_shift [OF d(1), of c] by simp
  finally show "mx = Max (set lags \<union> (\<lambda>l. l + c) ` set lags)"
    using d(3) by simp
qed

lemma estimate_mi_rejected:
  assumes "lag_bounds (lag_array lag) c = Inr (mn, mx)" and "lag_too_large mn mx (length y)"
  shows "\<exists>e. \<forall>(est :: ('a, 'r) estimator) cest choices.
           estimate_mi est cest choices y x lag k cond c msk parallel = Inl e"
proof (cases "check_parameters x y k cond msk")
  case (Inl e)
  then show ?thesis
    by (simp add: estimate_mi_invalid)
next
  case (Inr u)
  then show ?thesis
    using assms by (simp add: estimate_mi_lag_too_large)
qed

lemma estimate_mi_bad_parallel:
  assumes "p \<noteq> ''always''" and "p \<noteq> ''disable''"
  shows "\<exists>e. \<forall>(est :: ('a, 'r) estimator) cest choices.
           estimate_mi est cest choices y x lag k cond c msk (Some p) = Inl e"
proof (cases "check_parameters x y k cond msk")
  case (Inl e)
  then show ?thesis
    by (simp add: estimate_mi_invalid)
next
  case chk: (Inr u)
  show ?thesis
  proof (cases "lag_bounds (lag_array lag) c")
    case (Inl e)
    then show ?thesis
      using chk by (simp add: estimate_mi_no_lags)
  next
    case (Inr b)
    obtain mn mx where b: "b = (mn, mx)"
      by (cases b)
    show ?thesis
    proof (cases "lag_too_large mn mx (length y)")
      case True
      then show ?thesis
        using chk Inr b by (simp add: estimate_mi_lag_too_large)
    next
      case False
      have "should_be_parallel (Some p) (task_indices (length (lag_array lag)) (nvar x)) y =
          Inl (ValueError ''unrecognized value for parallel argument'')"
        using assms by (simp add: should_be_parallel_def)
      then show ?thesis
        using chk Inr b False by (simp add: estimate_mi_unrecognized)
    qed
  qed
qed

subsection \<open>The bounds with and without \<open>cond_lag\<close>\<close>

lemma lag_bounds_cond_lag:
  assumes "lag_bounds lags 0 = Inr (min0, max0)" and "lag_bounds lags c = Inr (minc, maxc)"
  shows "minc = min min0 (min0 + c)" and "maxc = max max0 (max0 + c)"
  using lag_bounds_InrD(2,3) [OF assms(1)] lag_bounds_InrD(2,3) [OF assms(2)] by simp_all

subsection \<open>A mask that is true everywhere\<close>





lemma masked_None: "masked None a = Inr a"
  by (simp add: masked_def)







section \<open>The claims\<close>

subsection \<open>Windows\<close>

text \<open>
  Claim C1. In every task the estimator is given the slice of \<open>x\<close> from
  \<open>max_lag - L\<close> to \<open>N - L + min(min_lag, 0)\<close>, with \<open>L\<close> the task's lag, the
  slice of \<open>y\<close> from \<open>max_lag\<close> to \<open>N + min(min_lag, 0)\<close>, whose bounds do not
  mention the task's lag, and, with a conditioning series, its slice between the bounds
  of \<open>x\<close>'s slice taken at \<open>L = lag + cond_lag\<close>; with a mask it is given these
  slices indexed by the mask's slice between the bounds of \<open>y\<close>'s. On a call that passed the lag-range
  check the bounds of the \<open>x\<close> and \<open>cond\<close> slices lie within the series, so these
  slices are the entries at the positions from the first bound up to, and without, the
  second; so is the slice of \<open>y\<close> when \<open>max_lag\<close> is not negative (a negative start
  of a Python slice counts from the end of the series). For \<open>y = x = [1,2,3,4,5]\<close>,
  \<open>lag = 1\<close>, \<open>k = 1\<close>, no \<open>cond\<close> and no mask the estimator receives
  \<open>xs = [1,2,3,4]\<close> and \<open>ys = [2,3,4,5]\<close>, and the result grid has one row with one
  cell.
\<close>

theorem lagged_mi_windows:
  assumes "lag_bounds lags c = Inr (mn, mx)" and "\<not> lag_too_large mn mx (length y)"
    and "L \<in> set lags" and "length x = length y" and "length z = length y"
  shows "lagged_mi est cest (x, y, L, mx, mn, k, None, None, c) =
           est (py_slice x (mx - L) (int (length x) - L + min mn 0))
               (py_slice y mx (int (length y) + min mn 0)) k
     \<and> lagged_mi est cest (x, y, L, mx, mn, k, None, Some z, c) =
           cest (py_slice x (mx - L) (int (length x) - L + min mn 0))
                (py_slice y mx (int (length y) + min mn 0))
                (py_slice z (mx - (L + c)) (int (length z) - (L + c) + min mn 0)) k
     \<and> lagged_mi est cest (x, y, L, mx, mn, k, Some m, cond, c) =
           (case np_index (py_slice x (mx - L) (int (length x) - L + min mn 0))
                   (mask_slice m mx (int (length y) + min mn 0)) of
              Inl e \<Rightarrow> Inl e
            | Inr xs \<Rightarrow>
           (case np_index (py_slice y mx (int (length y) + min mn 0))
                   (mask_slice m mx (int (length y) + min mn 0)) of
              Inl e \<Rightarrow> Inl e
            | Inr ys \<Rightarrow>
           (case cond of
              None \<Rightarrow> est xs ys k
            | Some z' \<Rightarrow>
               (case np_index
                       (py_slice z' (mx - (L + c)) (int (length z') - (L + c) + min mn 0))
                       (mask_slice m mx (int (length y) + min mn 0)) of
                  Inl e \<Rightarrow> Inl e
                | Inr zs \<Rightarrow> cest xs ys zs k))))
     \<and> py_slice x (mx - L) (int (length x) - L + min mn 0) =
           map ((!) x) [nat (mx - L)..<nat (int (length x) - L + min mn 0)]
     \<and> py_slice z (mx - (L + c)) (int (length z) - (L + c) + min mn 0) =
           map ((!) z) [nat (mx - (L + c))..<nat (int (length z) - (L + c) + min mn 0)]
     \<and> (0 \<le> mx \<longrightarrow>
           py_slice y mx (int (length y) + min mn 0) =
             map ((!) y) [nat mx..<nat (int (length y) + min mn 0)])
     \<and> lagged_mi probe cprobe ([1, 2, 3, 4, 5], [1, 2, 3, 4, 5], 1, 1, 1, 1, None, None, 0) =
           Inr ([1, 2, 3, 4], [2, 3, 4, 5], [])
     \<and> estimate_mi est' cest' choices [1, 2, 3, 4, 5] (X1 [1, 2, 3, 4, 5 :: int]) (LagInt 1) 1
           None 0 None None =
           (case est' [1, 2, 3, 4] [2, 3, 4, 5] 1 of Inl e \<Rightarrow> Inl e | Inr r \<Rightarrow> Inr [[Some r]])"
proof -
  note m = lag_bounds_member [OF assms(1) assms(3)]
  have okx: "\<not> lag_too_large mn mx (length x)" and okz: "\<not> lag_too_large mn mx (length z)"
    using assms(2,4,5) by simp_all
  have calls: "lagged_mi est cest (x, y, L, mx, mn, k, None, None, c) =
           est (py_slice x (mx - L) (int (length x) - L + min mn 0))
               (py_slice y mx (int (length y) + min mn 0)) k"
    "lagged_mi est cest (x, y, L, mx, mn, k, None, Some z, c) =
           cest (py_slice x (mx - L) (int (length x) - L + min mn 0))
                (py_slice y mx (int (length y) + min mn 0))
                (py_slice z (mx - (L + c)) (int (length z) - (L + c) + min mn 0)) k"
    by (simp_all add: masked_def lag_window_def y_window_def)
  have mcall: "lagged_mi est cest (x, y, L, mx, mn, k, Some m, cond, c) =
           (case np_index (py_slice x (mx - L) (int (length x) - L + min mn 0))
                   (mask_slice m mx (int (length y) + min mn 0)) of
              Inl e \<Rightarrow> Inl e
            | Inr xs \<Rightarrow>
           (case np_index (py_slice y mx (int (length y) + min mn 0))
                   (mask_slice m mx (int (length y) + min mn 0)) of
              Inl e \<Rightarrow> Inl e
            | Inr ys \<Rightarrow>
           (case cond of
              None \<Rightarrow> est xs ys k
            | Some z' \<Rightarrow>
               (case np_index
                       (py_slice z' (mx - (L + c)) (int (length z') - (L + c) + min mn 0))
                       (mask_slice m mx (int (length y) + min mn 0)) of
                  Inl e \<Rightarrow> Inl e
                | Inr zs \<Rightarrow> cest xs ys zs k))))"
    by (simp add: masked_def lag_window_def y_window_def Let_def
        split: sum.splits option.splits)
  have xw: "py_slice x (mx - L) (int (length x) - L + min mn 0) =
           map ((!) x) [nat (mx - L)..<nat (int (length x) - L + min mn 0)]"
    using lag_window_inrange(1) [OF okx m(1) m(2)] by (simp add: lag_window_def)
  have zw: "py_slice z (mx - (L + c)) (int (length z) - (L + c) + min mn 0) =
           map ((!) z) [nat (mx - (L + c))..<nat (int (length z) - (L + c) + min mn 0)]"
    using lag_window_inrange(1) [OF okz m(3) m(4)] by (simp add: lag_window_def)
  have yw: "py_slice y mx (int (length y) + min mn 0) =
             map ((!) y) [nat mx..<nat (int (length y) + min mn 0)]" if "0 \<le> mx"
    using y_window_inrange(1) [OF assms(2) that] by (simp add: y_window_def)
  have ex1: "lagged_mi probe cprobe ([1, 2, 3, 4, 5], [1, 2, 3, 4, 5], 1, 1, 1, 1, None, None, 0) =
           Inr ([1, 2, 3, 4], [2, 3, 4, 5], [])"
    by code_simp
  have ex2: "estimate_mi est' cest' choices [1, 2, 3, 4, 5] (X1 [1, 2, 3, 4, 5 :: int]) (LagInt 1) 1
           None 0 None None =
           (case est' [1, 2, 3, 4] [2, 3, 4, 5] 1 of Inl e \<Rightarrow> Inl e | Inr r \<Rightarrow> Inr [[Some r]])"
    by (simp add: call_defs window_defs task_indices_single split: sum.splits)
  from calls mcall xw zw yw ex1 ex2 show ?thesis
    by blast
qed

text \<open>The theorem at the task of the example, with a conditioning series added.\<close>

theorem lagged_mi_windows_witness:
  "lag_bounds [1] 0 = Inr (1, 1)
   \<and> \<not> lag_too_large 1 1 (length [1, 2, 3, 4, 5 :: int])
   \<and> (1 :: int) \<in> set [1]
   \<and> length [1, 2, 3, 4, 5 :: int] = length [1, 2, 3, 4, 5 :: int]
   \<and> length [6, 7, 8, 9, 10 :: int] = length [1, 2, 3, 4, 5 :: int]
   \<and> lagged_mi probe cprobe
        ([1, 2, 3, 4, 5], [1, 2, 3, 4, 5], 1, 1, 1, 1, None, Some [6, 7, 8, 9, 10], 0) =
       cprobe (map ((!) [1, 2, 3, 4, 5]) [0..<4]) (map ((!) [1, 2, 3, 4, 5]) [1..<5])
         (map ((!) [6, 7, 8, 9, 10]) [0..<4]) 1"
proof -
  have h1: "lag_bounds [1] 0 = Inr (1, 1)"
    by (simp add: lag_bounds_def)
  have h2: "\<not> lag_too_large 1 1 (length [1, 2, 3, 4, 5 :: int])"
    by (simp add: lag_too_large_def)
  have h3: "(1 :: int) \<in> set [1]"
    by simp
  have h4: "length [1, 2, 3, 4, 5 :: int] = length [1, 2, 3, 4, 5 :: int]"
    by simp
  have h5: "length [6, 7, 8, 9, 10 :: int] = length [1, 2, 3, 4, 5 :: int]"
    by simp
  have h6: "(0 :: int) \<le> 1"
    by simp
  note t = lagged_mi_windows [OF h1 h2 h3 h4 h5, where est = probe and cest = cprobe and k = 1
      and est' = probe and cest' = cprobe and choices = "[]"]
  from t h6 have "lagged_mi probe cprobe
        ([1, 2, 3, 4, 5], [1, 2, 3, 4, 5], 1, 1, 1, 1, None, Some [6, 7, 8, 9, 10], 0) =
       cprobe (map ((!) [1, 2, 3, 4, 5]) [0..<4]) (map ((!) [1, 2, 3, 4, 5]) [1..<5])
         (map ((!) [6, 7, 8, 9, 10]) [0..<4]) 1"
    by simp
  with h1 h2 h3 h5 show ?thesis
    by simp
qed

text \<open>
  Claim C2 says that on every call that passes the validator and the lag-range check
  the windows of \<open>x\<close>, \<open>y\<close> and \<open>cond\<close> of every task have one length,
  \<open>N - (max_lag - min_lag)\<close>. The source cuts the end of a window by
  \<open>min(min_lag, 0)\<close>, not by \<open>min_lag\<close>: with the single lag \<open>1\<close> on five
  observations the windows have four entries, not five.
\<close>

theorem window_lengths_counterexample:
  "check_parameters (X1 [1, 2, 3, 4, 5 :: int]) [1, 2, 3, 4, 5] 1 None None = Inr ()
   \<and> lag_bounds (lag_array (LagInt 1)) 0 = Inr (1, 1)
   \<and> \<not> lag_too_large 1 1 (length [1, 2, 3, 4, 5 :: int])
   \<and> length (lag_window (variable (X1 [1, 2, 3, 4, 5 :: int]) 0) 1 1 1) = 4
   \<and> length (y_window [1, 2, 3, 4, 5 :: int] 1 1) = 4
   \<and> length (lag_window (variable (X1 [1, 2, 3, 4, 5 :: int]) 0) 1 1 1)
       \<noteq> nat (int (length [1, 2, 3, 4, 5 :: int]) - (1 - 1))"
  by (simp add: check_parameters_def lag_bounds_def lag_too_large_def variable_def window_defs)

text \<open>
  Claim C2, amended. On every call that passes the validator and the lag-range check
  and whose \<open>max_lag\<close> is not negative, the windows of \<open>x\<close>, of \<open>y\<close> and, with a
  conditioning series, of \<open>cond\<close> have the same length in every task, and that length
  is \<open>N - (max_lag - min(min_lag, 0))\<close>, which is positive.
\<close>

theorem window_lengths:
  assumes "check_parameters x y k cond msk = Inr ()"
    and "lag_bounds (lag_array lag) c = Inr (mn, mx)"
    and "\<not> lag_too_large mn mx (length y)"
    and "L \<in> set (lag_array lag)"
    and "0 \<le> mx"
  shows "length (lag_window (variable x j) L mx mn) = nat (int (length y) - (mx - min mn 0))
     \<and> length (y_window y mx mn) = nat (int (length y) - (mx - min mn 0))
     \<and> (\<forall>z. cond = Some z \<longrightarrow>
            length (lag_window z (L + c) mx mn) = nat (int (length y) - (mx - min mn 0)))
     \<and> 0 < nat (int (length y) - (mx - min mn 0))"
proof -
  note m = lag_bounds_member [OF assms(2) assms(4)]
  have lx: "length (variable x j) = length y"
    using check_parameters_InrD(1) [OF assms(1)] by (simp add: length_variable)
  then have okx: "\<not> lag_too_large mn mx (length (variable x j))"
    using assms(3) by simp
  have xw: "length (lag_window (variable x j) L mx mn) = nat (int (length y) - (mx - min mn 0))"
    using lag_window_inrange(2) [OF okx m(1) m(2)] lx by (simp add: algebra_simps)
  have pos: "0 < nat (int (length y) - (mx - min mn 0))"
    using lag_window_inrange(3) [OF okx m(1) m(2)] lx by (simp add: algebra_simps)
  have yw: "length (y_window y mx mn) = nat (int (length y) - (mx - min mn 0))"
    using y_window_inrange(2) [OF assms(3) assms(5)] by (simp add: algebra_simps)
  have zw: "length (lag_window z (L + c) mx mn) = nat (int (length y) - (mx - min mn 0))"
    if "cond = Some z" for z
  proof -
    have lz: "length z = length y"
      using check_parameters_InrD(2) [OF assms(1) that] .
    then have okz: "\<not> lag_too_large mn mx (length z)"
      using assms(3) by simp
    show ?thesis
      using lag_window_inrange(2) [OF okz m(3) m(4)] lz by (simp add: algebra_simps)
  qed
  from xw yw zw pos show ?thesis
    by blast
qed

text \<open>The theorem at a call with the lags \<open>-1\<close> and \<open>1\<close>, a conditioning series and
  \<open>cond_lag = 1\<close>.\<close>

theorem window_lengths_witness:
  "check_parameters (X1 [1, 2, 3, 4, 5 :: int]) [1, 2, 3, 4, 5] 1 (Some [6, 7, 8, 9, 10]) None
     = Inr ()
   \<and> lag_bounds (lag_array (LagArr [-1, 1])) 1 = Inr (- 1, 2)
   \<and> \<not> lag_too_large (- 1) 2 (length [1, 2, 3, 4, 5 :: int])
   \<and> (1 :: int) \<in> set (lag_array (LagArr [-1, 1]))
   \<and> (0 :: int) \<le> 2
   \<and> length (lag_window (variable (X1 [1, 2, 3, 4, 5 :: int]) 0) 1 2 (- 1)) = 2
   \<and> length (y_window [1, 2, 3, 4, 5 :: int] 2 (- 1)) = 2
   \<and> length (lag_window [6, 7, 8, 9, 10 :: int] (1 + 1) 2 (- 1)) = 2"
proof -
  have h1: "check_parameters (X1 [1, 2, 3, 4, 5 :: int]) [1, 2, 3, 4, 5] 1
      (Some [6, 7, 8, 9, 10]) None = Inr ()"
    by (simp add: check_parameters_def)
  have h2: "lag_bounds (lag_array (LagArr [-1, 1])) 1 = Inr (- 1, 2)"
    by (simp add: lag_bounds_def)
  have h3: "\<not> lag_too_large (- 1) 2 (length [1, 2, 3, 4, 5 :: int])"
    by (simp add: lag_too_large_def)
  have h4: "(1 :: int) \<in> set (lag_array (LagArr [-1, 1]))"
    by simp
  have h5: "(0 :: int) \<le> 2"
    by simp
  from window_lengths [OF h1 h2 h3 h4 h5, of 0] h1 h2 h3 h4 show ?thesis
    by simp
qed

subsection \<open>Negative lags only\<close>

text \<open>
  When every lag is negative so is \<open>max_lag\<close>, and the start \<open>max_lag\<close> of \<open>y\<close>'s
  slice counts from the end of \<open>y\<close>: the slice is empty. For a single negative lag
  the window of \<open>x\<close> is the whole of \<open>x\<close>.
\<close>

lemma negative_lag_windows:
  assumes "L < 0" and "- int (length y) < L" and "length x = length y"
  shows "lag_bounds (lag_array (LagInt L)) 0 = Inr (L, L)"
    and "\<not> lag_too_large L L (length y)"
    and "lag_window x L L L = x"
    and "y_window y L L = []"
proof -
  show "lag_bounds (lag_array (LagInt L)) 0 = Inr (L, L)"
    by (simp add: lag_bounds_def)
  have "0 < int (length y)"
    using assms(1,2) by linarith
  then show ok: "\<not> lag_too_large L L (length y)"
    using assms by (simp add: lag_too_large_def)
  show "y_window y L L = []"
    using ok assms(1) by (intro y_window_wrapped) simp_all
  show "lag_window x L L L = x"
    using assms by (simp add: lag_window_def py_slice_def slice_bound_def)
qed

text \<open>
  Claim C3 says that for a single negative lag \<open>L\<close> with \<open>|L| < N\<close>, without
  \<open>cond\<close> and mask, the window of \<open>x\<close> begins \<open>|L|\<close> steps later than the window
  of \<open>y\<close> and both have \<open>N - |L|\<close> entries. The docstring of \<^verbatim>\<open>estimate_mi\<close>
  admits every lag of magnitude less than \<open>N\<close> and reads the lag as
  \<open>y(t + lag) ~ x(t)\<close>. On \<open>y = x = [1,2,3,4,5]\<close> with \<open>lag = -1\<close> and \<open>k = 1\<close>
  the call passes both checks, and the estimator is given all five entries of \<open>x\<close>
  and no entry of \<open>y\<close>, where the claim has \<open>xs = [2,3,4,5]\<close> and
  \<open>ys = [1,2,3,4]\<close>.
\<close>

theorem negative_lag_example:
  "check_parameters (X1 [1, 2, 3, 4, 5 :: int]) [1, 2, 3, 4, 5] 1 None None = Inr ()
   \<and> lag_bounds (lag_array (LagInt (- 1))) 0 = Inr (- 1, - 1)
   \<and> \<not> lag_too_large (- 1) (- 1) (length [1, 2, 3, 4, 5 :: int])
   \<and> lag_window [1, 2, 3, 4, 5 :: int] (- 1) (- 1) (- 1) = [1, 2, 3, 4, 5]
   \<and> y_window [1, 2, 3, 4, 5 :: int] (- 1) (- 1) = []
   \<and> estimate_mi est cest choices [1, 2, 3, 4, 5] (X1 [1, 2, 3, 4, 5 :: int]) (LagInt (- 1)) 1
         None 0 None None =
       (case est [1, 2, 3, 4, 5] [] 1 of Inl e \<Rightarrow> Inl e | Inr r \<Rightarrow> Inr [[Some r]])"
  by (simp add: call_defs window_defs task_indices_single split: sum.splits)

subsection \<open>The result grid\<close>

text \<open>
  Claim C4. When a call returns, its result is a grid with one row per lag value and
  \<open>nvar\<close> columns, where \<open>nvar\<close> is \<open>1\<close> for a one-dimensional \<open>x\<close> and the
  column count of \<open>x\<close> otherwise. The tasks are enumerated lag-major and
  variable-minor: the task at position \<open>i * nvar + j\<close> has the index pair \<open>(i, j)\<close>.
  The cell in row \<open>i\<close> and column \<open>j\<close> holds exactly what \<^verbatim>\<open>_lagged_mi\<close> returns
  for the task with the lag \<open>lag[i]\<close> and the variable \<open>j\<close> of \<open>x\<close>, in both
  modes of execution and for every order in which the workers complete.
\<close>

theorem estimate_mi_grid:
  assumes "estimate_mi est cest choices y x lag k cond c msk parallel = Inr g"
    and "lags = lag_array lag" and "m = nvar x"
  shows "\<exists>mn mx. lag_bounds lags c = Inr (mn, mx)
     \<and> length g = length lags
     \<and> (\<forall>i<length lags. length (g ! i) = m
          \<and> (\<forall>j<m. task_indices (length lags) m ! (i * m + j) = (i, j)
              \<and> (\<exists>r. lagged_mi est cest (variable x j, y, lags ! i, mx, mn, k, msk, cond, c)
                         = Inr r
                      \<and> g ! i ! j = Some r)))"
proof -
  define n where "n = length lags"
  from assms obtain mn mx par where chk: "check_parameters x y k cond msk = Inr ()"
    and bnd: "lag_bounds lags c = Inr (mn, mx)"
    and ok: "\<not> lag_too_large mn mx (length y)"
    and par: "should_be_parallel parallel (task_indices n m) y = Inr par"
    unfolding n_def by (auto elim: estimate_mi_InrD)
  define ps where "ps = task_params x y lags mx mn k msk cond c (task_indices n m)"
  have run: "collect (np_empty n m) (zip (task_indices n m) (map (lagged_mi est cest) ps)) = Inr g"
    using estimate_mi_run [of x y k cond msk "()" lag c mn mx parallel par est cest choices]
      chk bnd ok par assms
    by (simp add: n_def ps_def)
  have len: "length (map (lagged_mi est cest) ps) = length (task_indices n m)"
    by (simp add: ps_def n_def assms(3) length_task_params length_task_indices)
  note cc = collect_cells [OF run len distinct_task_indices]
  have shape: "length g = n" "\<And>i. i < n \<Longrightarrow> length (g ! i) = m"
    using cc by (simp_all add: np_empty_def)
  have cell: "task_indices n m ! (i * m + j) = (i, j)
      \<and> (\<exists>r. lagged_mi est cest (variable x j, y, lags ! i, mx, mn, k, msk, cond, c) = Inr r
             \<and> g ! i ! j = Some r)"
    if "i < n" "j < m" for i j
  proof -
    note ix = task_indices_nth [OF that]
    from cc ix(1) obtain r where r: "map (lagged_mi est cest) ps ! (i * m + j) = Inr r"
      and gr: "g ! fst (task_indices n m ! (i * m + j)) ! snd (task_indices n m ! (i * m + j)) = Some r"
      by blast
    have "ps ! (i * m + j) = (variable x j, y, lags ! i, mx, mn, k, msk, cond, c)"
      using that unfolding ps_def n_def assms(3) by (rule task_params_nth)
    moreover have "i * m + j < length ps"
      using ix(1) by (simp add: ps_def n_def assms(3) length_task_params length_task_indices)
    ultimately show ?thesis
      using r gr ix(2) by simp
  qed
  show ?thesis
    using bnd shape cell unfolding n_def by blast
qed

text \<open>The theorem at a call with two lags and two variables.\<close>

theorem estimate_mi_grid_witness:
  "\<exists>g. estimate_mi probe cprobe [] [1, 2, 3] (X2 2 [[1, 10], [2, 20], [3, 30]]) (LagArr [0, 1])
           1 None 0 None None = Inr g
     \<and> g = [[Some ([2, 3], [2, 3], []), Some ([20, 30], [2, 3], [])],
            [Some ([1, 2], [2, 3], []), Some ([10, 20], [2, 3], [])]]
     \<and> [0, 1] = lag_array (LagArr [0, 1])
     \<and> 2 = nvar (X2 2 [[1, 10], [2, 20], [3::int, 30]])
     \<and> (\<exists>mn mx. lag_bounds [0, 1] 0 = Inr (mn, mx)
          \<and> length g = length [0::int, 1]
          \<and> (\<forall>i<length [0::int, 1]. length (g ! i) = 2
               \<and> (\<forall>j<2. task_indices (length [0::int, 1]) 2 ! (i * 2 + j) = (i, j)
                   \<and> (\<exists>r. lagged_mi probe cprobe
                              (variable (X2 2 [[1, 10], [2, 20], [3, 30]]) j, [1, 2, 3],
                               [0, 1] ! i, mx, mn, 1, None, None, 0) = Inr r
                           \<and> g ! i ! j = Some r))))"
proof -
  have run: "estimate_mi probe cprobe [] [1, 2, 3] (X2 2 [[1, 10], [2, 20], [3, 30]])
       (LagArr [0, 1]) 1 None 0 None None =
     Inr [[Some ([2, 3], [2, 3], []), Some ([20, 30], [2, 3], [])],
          [Some ([1, 2], [2, 3], []), Some ([10, 20], [2, 3], [])]]"
    by code_simp
  have lags: "[0, 1] = lag_array (LagArr [0, 1])"
    by simp
  have m: "2 = nvar (X2 2 [[1, 10], [2, 20], [3::int, 30]])"
    by (simp add: nvar_def)
  from estimate_mi_grid [OF run lags m] run lags m show ?thesis
    by blast
qed

subsection \<open>Rejected calls\<close>

text \<open>
  Claim C5. \<^verbatim>\<open>_check_parameters\<close> raises if and only if the first dimension of \<open>x\<close>
  differs from the length of \<open>y\<close>, or \<open>cond\<close> is given and its length differs from
  the length of \<open>y\<close>, or the number of observations is at most \<open>k\<close>, or a mask is
  given whose length differs from the length of \<open>y\<close> or whose dtype is not boolean.
  It raises one of its five messages, and otherwise returns nothing (the unit value);
  it is a function of its arguments alone and changes none of them. When it raises,
  \<^verbatim>\<open>estimate_mi\<close> fails with that error whatever the estimators, the lags, the
  dispatch mode and the workers are: no task has run.
\<close>

theorem check_parameters_raises:
  "((\<exists>e. check_parameters x y k cond msk = Inl e) \<longleftrightarrow>
      (shape0 x \<noteq> length y
       \<or> (\<exists>z. cond = Some z \<and> length z \<noteq> length y)
       \<or> int (shape0 x) \<le> k
       \<or> (\<exists>m. msk = Some m \<and> (mask_len m \<noteq> length y \<or> \<not> dtype_is_bool m))))
   \<and> (check_parameters x y k cond msk = Inr () \<or> (\<exists>e. check_parameters x y k cond msk = Inl e
         \<and> e \<in> set [ValueError ''x and y must have same length'',
                     ValueError ''x and cond must have same length'',
                     ValueError ''k must be smaller than number of observations'',
                     ValueError ''mask length does not match y length'',
                     TypeError ''mask must contain only booleans'']))
   \<and> (\<forall>e. check_parameters x y k cond msk = Inl e \<longrightarrow>
         (\<forall>est cest choices lag c parallel.
            estimate_mi est cest choices y x lag k cond c msk parallel = Inl e))"
proof -
  have iff: "(\<exists>e. check_parameters x y k cond msk = Inl e) \<longleftrightarrow>
      (shape0 x \<noteq> length y
       \<or> (\<exists>z. cond = Some z \<and> length z \<noteq> length y)
       \<or> int (shape0 x) \<le> k
       \<or> (\<exists>m. msk = Some m \<and> (mask_len m \<noteq> length y \<or> \<not> dtype_is_bool m)))"
    by (auto simp: check_parameters_def split: option.splits)
  have msgs: "check_parameters x y k cond msk = Inr () \<or> (\<exists>e. check_parameters x y k cond msk = Inl e
         \<and> e \<in> set [ValueError ''x and y must have same length'',
                     ValueError ''x and cond must have same length'',
                     ValueError ''k must be smaller than number of observations'',
                     ValueError ''mask length does not match y length'',
                     TypeError ''mask must contain only booleans''])"
    by (simp add: check_parameters_def split: option.splits)
  have call: "\<forall>e. check_parameters x y k cond msk = Inl e \<longrightarrow>
         (\<forall>est cest choices lag c parallel.
            estimate_mi est cest choices y x lag k cond c msk parallel = Inl e)"
    by (simp add: estimate_mi_invalid)
  from iff msgs call show ?thesis
    by (intro conjI)
qed

text \<open>The theorem at a call with three observations in \<open>x\<close> and two in \<open>y\<close>, and an
  accepted call with a mask.\<close>

theorem check_parameters_raises_witness:
  "(\<exists>e. check_parameters (X1 [1, 2, 3 :: int]) [1, 2] 1 None None = Inl e)
   \<and> shape0 (X1 [1, 2, 3 :: int]) \<noteq> length [1, 2 :: int]
   \<and> estimate_mi probe cprobe [] [1, 2] (X1 [1, 2, 3]) (LagInt 0) 1 None 0 None None =
       Inl (ValueError ''x and y must have same length'')
   \<and> check_parameters (X1 [1, 2, 3 :: int]) [1, 2, 3] 1 None
        (Some (BoolMask [True, False, True])) = Inr ()"
proof -
  have h: "check_parameters (X1 [1, 2, 3 :: int]) [1, 2] 1 None None =
      Inl (ValueError ''x and y must have same length'')"
    by (simp add: check_parameters_def)
  have ok: "check_parameters (X1 [1, 2, 3 :: int]) [1, 2, 3] 1 None
        (Some (BoolMask [True, False, True])) = Inr ()"
    by (simp add: check_parameters_def)
  note t = check_parameters_raises [of "X1 [1, 2, 3 :: int]" "[1, 2]" 1 None None]
  from t h have "estimate_mi probe cprobe [] [1, 2] (X1 [1, 2, 3]) (LagInt 0) 1 None 0 None None =
       Inl (ValueError ''x and y must have same length'')"
    by blast
  with t h ok show ?thesis
    by simp
qed

text \<open>
  Claim C6. \<open>min_lag\<close> is the least and \<open>max_lag\<close> the greatest of all lags and
  all lags plus \<open>cond_lag\<close>. Unless \<open>max_lag - min_lag < N\<close>, \<open>max_lag < N\<close> and
  \<open>min_lag > -N\<close>, the call fails with one error whatever the estimators and the
  workers are, so before any task has run; after a successful validation the error is
  "lag is too large, no observations left". A call that returns a grid satisfies the
  three bounds. In particular a call with a lag of magnitude \<open>N\<close> or more violates
  them, and fails.
\<close>

theorem lag_range_check:
  assumes "lag_bounds (lag_array lag) c = Inr (mn, mx)"
  shows "mn = Min (set (lag_array lag) \<union> (\<lambda>l. l + c) ` set (lag_array lag))
     \<and> mx = Max (set (lag_array lag) \<union> (\<lambda>l. l + c) ` set (lag_array lag))
     \<and> (\<not> (mx - mn < int (length y) \<and> mx < int (length y) \<and> - int (length y) < mn) \<longrightarrow>
           (\<exists>e. \<forall>(est :: ('a, 'r) estimator) cest choices.
              estimate_mi est cest choices y x lag k cond c msk parallel = Inl e)
         \<and> (check_parameters x y k cond msk = Inr () \<longrightarrow>
              (\<forall>(est :: ('a, 'r) estimator) cest choices.
                 estimate_mi est cest choices y x lag k cond c msk parallel =
                   Inl (ValueError ''lag is too large, no observations left''))))
     \<and> ((\<exists>L. L \<in> set (lag_array lag) \<and> int (length y) \<le> \<bar>L\<bar>) \<longrightarrow>
           \<not> (mx - mn < int (length y) \<and> mx < int (length y) \<and> - int (length y) < mn))
     \<and> (\<forall>(est :: ('a, 'r) estimator) cest choices g.
           estimate_mi est cest choices y x lag k cond c msk parallel = Inr g \<longrightarrow>
           mx - mn < int (length y) \<and> mx < int (length y) \<and> - int (length y) < mn)"
proof -
  have large: "lag_too_large mn mx (length y) \<longleftrightarrow>
      \<not> (mx - mn < int (length y) \<and> mx < int (length y) \<and> - int (length y) < mn)"
    by (auto simp: lag_too_large_def)
  have rej: "\<exists>e. \<forall>(est :: ('a, 'r) estimator) cest choices.
      estimate_mi est cest choices y x lag k cond c msk parallel = Inl e"
    if "\<not> (mx - mn < int (length y) \<and> mx < int (length y) \<and> - int (length y) < mn)"
    using estimate_mi_rejected [OF assms] that large by blast
  have msg: "\<forall>(est :: ('a, 'r) estimator) cest choices.
      estimate_mi est cest choices y x lag k cond c msk parallel =
        Inl (ValueError ''lag is too large, no observations left'')"
    if "\<not> (mx - mn < int (length y) \<and> mx < int (length y) \<and> - int (length y) < mn)"
      and "check_parameters x y k cond msk = Inr ()"
    using estimate_mi_lag_too_large [OF that(2) assms] that(1) large by blast
  have single: "\<not> (mx - mn < int (length y) \<and> mx < int (length y) \<and> - int (length y) < mn)"
    if "L \<in> set (lag_array lag)" and "int (length y) \<le> \<bar>L\<bar>" for L
    using lag_bounds_member(1,2) [OF assms that(1)] that(2) by linarith
  have ret: "mx - mn < int (length y) \<and> mx < int (length y) \<and> - int (length y) < mn"
    if "estimate_mi est cest choices y x lag k cond c msk parallel = Inr g"
    for est :: "('a, 'r) estimator" and cest choices g
  proof (rule ccontr)
    assume "\<not> ?thesis"
    from rej [OF this] that show False
      by auto
  qed
  from lag_bounds_Min_Max [OF assms] rej msg single ret show ?thesis
    by blast
qed

text \<open>The theorem at a call with the lag \<open>5\<close> on five observations.\<close>

theorem lag_range_check_witness:
  "lag_bounds (lag_array (LagInt 5)) 0 = Inr (5, 5)
   \<and> (5 :: int) \<in> set (lag_array (LagInt 5))
   \<and> int (length [1, 2, 3, 4, 5 :: int]) \<le> \<bar>5\<bar>
   \<and> check_parameters (X1 [1, 2, 3, 4, 5 :: int]) [1, 2, 3, 4, 5] 1 None None = Inr ()
   \<and> estimate_mi probe cprobe [] [1, 2, 3, 4, 5] (X1 [1, 2, 3, 4, 5]) (LagInt 5) 1 None 0 None
        None = Inl (ValueError ''lag is too large, no observations left'')"
proof -
  have h1: "lag_bounds (lag_array (LagInt 5)) 0 = Inr (5, 5)"
    by (simp add: lag_bounds_def)
  have h2: "(5 :: int) \<in> set (lag_array (LagInt 5))"
    by simp
  have h3: "int (length [1, 2, 3, 4, 5 :: int]) \<le> \<bar>5\<bar>"
    by simp
  have h4: "check_parameters (X1 [1, 2, 3, 4, 5 :: int]) [1, 2, 3, 4, 5] 1 None None = Inr ()"
    by (simp add: check_parameters_def)
  note t = lag_range_check [OF h1, of "[1, 2, 3, 4, 5 :: int]" "X1 [1, 2, 3, 4, 5]" 1 None None None]
  from t h2 h3 h4 have "estimate_mi probe cprobe [] [1, 2, 3, 4, 5] (X1 [1, 2, 3, 4, 5]) (LagInt 5)
      1 None 0 None None = Inl (ValueError ''lag is too large, no observations left'')"
    by blast
  with h1 h2 h3 h4 show ?thesis
    by blast
qed

subsection \<open>Dispatch\<close>

text \<open>
  Claim C7. \<^verbatim>\<open>_should_be_parallel\<close> answers parallel for the override "always" and
  sequential for "disable"; without an override it answers parallel if and only if there
  is more than one task and \<open>y\<close> has more than 200 entries, the number of tasks being
  the number of lags times the number of variables. Every other override makes it raise
  "unrecognized value for parallel argument": the call then fails with one error
  whatever the estimators and the workers are, so before any task has run, and with
  that error once the validator and the lag-range check have passed. Its answer decides
  between the worker pool and the sequential map in \<^verbatim>\<open>estimate_mi\<close>.
\<close>

theorem dispatch_decision:
  "should_be_parallel (Some ''always'') indices y = Inr True
   \<and> should_be_parallel (Some ''disable'') indices y = Inr False
   \<and> should_be_parallel None indices y = Inr (1 < length indices \<and> 200 < length y)
   \<and> length (task_indices (length (lag_array lag)) (nvar x)) = length (lag_array lag) * nvar x
   \<and> (p \<noteq> ''always'' \<and> p \<noteq> ''disable'' \<longrightarrow>
         should_be_parallel (Some p) indices y =
           Inl (ValueError ''unrecognized value for parallel argument'')
       \<and> (\<exists>e. \<forall>(est :: ('a, 'r) estimator) cest choices.
             estimate_mi est cest choices y x lag k cond c msk (Some p) = Inl e)
       \<and> (check_parameters x y k cond msk = Inr ()
            \<and> lag_bounds (lag_array lag) c = Inr (mn, mx)
            \<and> \<not> lag_too_large mn mx (length y) \<longrightarrow>
           (\<forall>(est :: ('a, 'r) estimator) cest choices.
              estimate_mi est cest choices y x lag k cond c msk (Some p) =
                Inl (ValueError ''unrecognized value for parallel argument''))))
   \<and> (check_parameters x y k cond msk = Inr ()
        \<and> lag_bounds (lag_array lag) c = Inr (mn, mx)
        \<and> \<not> lag_too_large mn mx (length y)
        \<and> should_be_parallel parallel (task_indices (length (lag_array lag)) (nvar x)) y = Inr par
      \<longrightarrow>
        (\<forall>(est :: ('a, 'r) estimator) cest choices.
           estimate_mi est cest choices y x lag k cond c msk parallel =
             collect (np_empty (length (lag_array lag)) (nvar x))
               (zip (task_indices (length (lag_array lag)) (nvar x))
                  (if par
                   then executor_map choices (lagged_mi est cest)
                          (task_params x y (lag_array lag) mx mn k msk cond c
                             (task_indices (length (lag_array lag)) (nvar x)))
                   else map (lagged_mi est cest)
                          (task_params x y (lag_array lag) mx mn k msk cond c
                             (task_indices (length (lag_array lag)) (nvar x)))))))"
proof -
  have d: "should_be_parallel (Some ''always'') indices y = Inr True"
    "should_be_parallel (Some ''disable'') indices y = Inr False"
    "should_be_parallel None indices y = Inr (1 < length indices \<and> 200 < length y)"
    by (simp_all add: should_be_parallel_def)
  have n: "length (task_indices (length (lag_array lag)) (nvar x)) = length (lag_array lag) * nvar x"
    by (rule length_task_indices)
  have bad: "should_be_parallel (Some p) indices y =
           Inl (ValueError ''unrecognized value for parallel argument'')"
    if "p \<noteq> ''always''" "p \<noteq> ''disable''" for indices :: "(nat \<times> nat) list"
    using that by (simp add: should_be_parallel_def)
  have fails: "\<exists>e. \<forall>(est :: ('a, 'r) estimator) cest choices.
             estimate_mi est cest choices y x lag k cond c msk (Some p) = Inl e"
    if "p \<noteq> ''always''" "p \<noteq> ''disable''"
    using that by (rule estimate_mi_bad_parallel)
  have msg: "\<forall>(est :: ('a, 'r) estimator) cest choices.
              estimate_mi est cest choices y x lag k cond c msk (Some p) =
                Inl (ValueError ''unrecognized value for parallel argument'')"
    if "p \<noteq> ''always''" "p \<noteq> ''disable''" "check_parameters x y k cond msk = Inr ()"
      "lag_bounds (lag_array lag) c = Inr (mn, mx)" "\<not> lag_too_large mn mx (length y)"
    using estimate_mi_unrecognized [OF that(3,4,5) bad [OF that(1,2)]] by blast
  have run: "\<forall>(est :: ('a, 'r) estimator) cest choices.
           estimate_mi est cest choices y x lag k cond c msk parallel =
             collect (np_empty (length (lag_array lag)) (nvar x))
               (zip (task_indices (length (lag_array lag)) (nvar x))
                  (if par
                   then executor_map choices (lagged_mi est cest)
                          (task_params x y (lag_array lag) mx mn k msk cond c
                             (task_indices (length (lag_array lag)) (nvar x)))
                   else map (lagged_mi est cest)
                          (task_params x y (lag_array lag) mx mn k msk cond c
                             (task_indices (length (lag_array lag)) (nvar x)))))"
    if "check_parameters x y k cond msk = Inr ()"
      "lag_bounds (lag_array lag) c = Inr (mn, mx)" "\<not> lag_too_large mn mx (length y)"
      "should_be_parallel parallel (task_indices (length (lag_array lag)) (nvar x)) y = Inr par"
    using that by (simp add: estimate_mi_def Let_def)
  from d n bad fails msg run show ?thesis
    by blast
qed

text \<open>The theorem at a call with the override "sometimes", and at the same call without
  an override.\<close>

theorem dispatch_decision_witness:
  "''sometimes'' \<noteq> ''always'' \<and> ''sometimes'' \<noteq> ''disable''
   \<and> check_parameters (X1 [1, 2, 3, 4, 5 :: int]) [1, 2, 3, 4, 5] 1 None None = Inr ()
   \<and> lag_bounds (lag_array (LagInt 0)) 0 = Inr (0, 0)
   \<and> \<not> lag_too_large 0 0 (length [1, 2, 3, 4, 5 :: int])
   \<and> should_be_parallel (Some ''sometimes'') [(0, 0)] [1, 2, 3, 4, 5 :: int] =
        Inl (ValueError ''unrecognized value for parallel argument'')
   \<and> estimate_mi probe cprobe [] [1, 2, 3, 4, 5] (X1 [1, 2, 3, 4, 5]) (LagInt 0) 1 None 0 None
        (Some ''sometimes'') = Inl (ValueError ''unrecognized value for parallel argument'')
   \<and> should_be_parallel None (task_indices (length (lag_array (LagInt 0)))
          (nvar (X1 [1, 2, 3, 4, 5 :: int]))) [1, 2, 3, 4, 5 :: int] = Inr False
   \<and> estimate_mi probe cprobe [] [1, 2, 3, 4, 5] (X1 [1, 2, 3, 4, 5]) (LagInt 0) 1 None 0 None
        None =
       collect (np_empty 1 1)
         (zip [(0, 0)] (map (lagged_mi probe cprobe)
            (task_params (X1 [1, 2, 3, 4, 5]) [1, 2, 3, 4, 5] [0] 0 0 1 None None 0 [(0, 0)])))"
proof -
  have p: "''sometimes'' \<noteq> ''always'' \<and> ''sometimes'' \<noteq> ''disable''"
    by simp
  have h1: "check_parameters (X1 [1, 2, 3, 4, 5 :: int]) [1, 2, 3, 4, 5] 1 None None = Inr ()"
    by (simp add: check_parameters_def)
  have h2: "lag_bounds (lag_array (LagInt 0)) 0 = Inr (0, 0)"
    by (simp add: lag_bounds_def)
  have h3: "\<not> lag_too_large 0 0 (length [1, 2, 3, 4, 5 :: int])"
    by (simp add: lag_too_large_def)
  have h4: "should_be_parallel None (task_indices (length (lag_array (LagInt 0)))
          (nvar (X1 [1, 2, 3, 4, 5 :: int]))) [1, 2, 3, 4, 5 :: int] = Inr False"
    by (simp add: should_be_parallel_def)
  have ix: "task_indices (length (lag_array (LagInt 0))) (nvar (X1 [1, 2, 3, 4, 5 :: int])) =
      [(0, 0)]"
    by (simp add: nvar_def task_indices_single)
  note t = dispatch_decision [of "[(0, 0)]" "[1, 2, 3, 4, 5 :: int]" "LagInt 0"
      "X1 [1, 2, 3, 4, 5]" "''sometimes''" 1 None 0 None 0 0 None False]
  from t p h1 h2 h3 have bad: "should_be_parallel (Some ''sometimes'') [(0, 0)] [1, 2, 3, 4, 5 :: int] =
        Inl (ValueError ''unrecognized value for parallel argument'')"
    and call: "estimate_mi probe cprobe [] [1, 2, 3, 4, 5] (X1 [1, 2, 3, 4, 5]) (LagInt 0) 1 None 0
        None (Some ''sometimes'') = Inl (ValueError ''unrecognized value for parallel argument'')"
    by blast+
  from t h1 h2 h3 h4 have "estimate_mi probe cprobe [] [1, 2, 3, 4, 5] (X1 [1, 2, 3, 4, 5])
        (LagInt 0) 1 None 0 None None =
       collect (np_empty (length (lag_array (LagInt 0))) (nvar (X1 [1, 2, 3, 4, 5 :: int])))
         (zip (task_indices (length (lag_array (LagInt 0))) (nvar (X1 [1, 2, 3, 4, 5 :: int])))
            (map (lagged_mi probe cprobe)
              (task_params (X1 [1, 2, 3, 4, 5]) [1, 2, 3, 4, 5] (lag_array (LagInt 0)) 0 0 1
                 None None 0
                 (task_indices (length (lag_array (LagInt 0)))
                    (nvar (X1 [1, 2, 3, 4, 5 :: int]))))))"
    by (metis (full_types))
  then have run: "estimate_mi probe cprobe [] [1, 2, 3, 4, 5] (X1 [1, 2, 3, 4, 5]) (LagInt 0) 1
        None 0 None None =
       collect (np_empty 1 1)
         (zip [(0, 0)] (map (lagged_mi probe cprobe)
            (task_params (X1 [1, 2, 3, 4, 5]) [1, 2, 3, 4, 5] [0] 0 0 1 None None 0 [(0, 0)])))"
    unfolding ix by (simp add: nvar_def)
  from p h1 h2 h3 h4 bad call run show ?thesis
    by blast
qed

text \<open>
  Claim C9. For every input, the call with \<^verbatim>\<open>parallel="always"\<close> and the call with
  \<^verbatim>\<open>parallel="disable"\<close> have the same outcome, the same grid when they return one,
  whatever the order in which the workers complete: the pool returns, for the same
  function \<^verbatim>\<open>_lagged_mi\<close> and the same task descriptors, the list the sequential map
  returns, and both lists are paired with the same index pairs.
\<close>

theorem parallel_equals_sequential:
  "estimate_mi est cest choices y x lag k cond c msk (Some ''always'') =
   estimate_mi est cest choices' y x lag k cond c msk (Some ''disable'')
   \<and> executor_map choices (lagged_mi est cest) params = map (lagged_mi est cest) params"
proof -
  have "estimate_mi est cest choices y x lag k cond c msk (Some ''always'') =
    estimate_mi est cest choices' y x lag k cond c msk (Some ''disable'')"
    by (simp add: estimate_mi_def should_be_parallel_def Let_def executor_map_eq_map
      split: sum.splits prod.splits)
  then show ?thesis
    by (simp add: executor_map_eq_map)
qed

text \<open>The theorem at a call with four tasks, whose workers complete out of order.\<close>

theorem parallel_equals_sequential_witness:
  "estimate_mi probe cprobe [1, 0] [1, 2, 3] (X2 2 [[1, 10], [2, 20], [3, 30]]) (LagArr [0, 1])
       1 None 0 None (Some ''always'') =
     Inr [[Some ([2, 3], [2, 3], []), Some ([20, 30], [2, 3], [])],
          [Some ([1, 2], [2, 3], []), Some ([10, 20], [2, 3], [])]]"
proof -
  have "estimate_mi probe cprobe [] [1, 2, 3] (X2 2 [[1, 10], [2, 20], [3, 30]])
       (LagArr [0, 1]) 1 None 0 None (Some ''disable'') =
     Inr [[Some ([2, 3], [2, 3], []), Some ([20, 30], [2, 3], [])],
          [Some ([1, 2], [2, 3], []), Some ([10, 20], [2, 3], [])]]"
    by code_simp
  with parallel_equals_sequential [of probe cprobe "[1, 0]" "[1, 2, 3]"
      "X2 2 [[1, 10], [2, 20], [3, 30]]" "LagArr [0, 1]" 1 None 0 None "[]"]
  show ?thesis
    by simp
qed

subsection \<open>Masks\<close>


text \<open>
  With lags that are all negative the windows of one task differ in length (see the
  section on negative lags): on \<open>y = x = [1,2,3,4,5]\<close> with \<open>lag = -1\<close>, \<open>k = 1\<close>
  and five \<open>True\<close>s, \<open>y\<close>'s window and the mask's window are empty, indexing by
  the empty mask window empties \<open>x\<close>'s window too, and the estimator is called on no
  observation at all; without the mask it is called on five entries of \<open>x\<close> and none
  of \<open>y\<close>. Whether the two calls agree there is a matter of the estimator.
\<close>

lemma all_true_mask_negative_lag:
  "estimate_mi est cest choices [1, 2, 3, 4, 5] (X1 [1, 2, 3, 4, 5 :: int]) (LagInt (- 1)) 1
       None 0 (Some (BoolMask [True, True, True, True, True])) None =
     (case est [] [] 1 of Inl e \<Rightarrow> Inl e | Inr r \<Rightarrow> Inr [[Some r]])
   \<and> estimate_mi est cest choices [1, 2, 3, 4, 5] (X1 [1, 2, 3, 4, 5 :: int]) (LagInt (- 1)) 1
       None 0 None None =
     (case est [1, 2, 3, 4, 5] [] 1 of Inl e \<Rightarrow> Inl e | Inr r \<Rightarrow> Inr [[Some r]])"
  by (simp add: call_defs window_defs task_indices_single split: sum.splits)



subsection \<open>\<open>cond_lag\<close> without a conditioning series\<close>

text \<open>
  Claim C10 says that, also without a conditioning series, a non-zero \<open>cond_lag\<close>
  enters \<open>min_lag\<close> and \<open>max_lag\<close> and therefore shrinks the windows of \<open>x\<close> and
  \<open>y\<close> and tightens the lag-range check, compared with \<open>cond_lag = 0\<close>. It does
  enter the bounds, but the end of a window is cut by \<open>min(min_lag, 0)\<close>: with the
  single lag \<open>2\<close> and \<open>cond_lag = -1\<close> on five observations, \<open>min_lag\<close> drops from
  \<open>2\<close> to \<open>1\<close>, and the windows and the calls the check rejects are those of
  \<open>cond_lag = 0\<close>.
\<close>

theorem cond_lag_without_cond_counterexample:
  "(- 1 :: int) \<noteq> 0
   \<and> lag_bounds (lag_array (LagInt 2)) (- 1) = Inr (1, 2)
   \<and> lag_bounds (lag_array (LagInt 2)) 0 = Inr (2, 2)
   \<and> lag_window [1, 2, 3, 4, 5 :: int] 2 2 1 = [1, 2, 3]
   \<and> lag_window [1, 2, 3, 4, 5 :: int] 2 2 2 = [1, 2, 3]
   \<and> y_window [1, 2, 3, 4, 5 :: int] 2 1 = [3, 4, 5]
   \<and> y_window [1, 2, 3, 4, 5 :: int] 2 2 = [3, 4, 5]
   \<and> (\<forall>n. lag_too_large 1 2 n = lag_too_large 2 2 n)
   \<and> estimate_mi probe cprobe [] [1, 2, 3, 4, 5] (X1 [1, 2, 3, 4, 5]) (LagInt 2) 1 None (- 1)
        None None = Inr [[Some ([1, 2, 3], [3, 4, 5], [])]]
   \<and> estimate_mi probe cprobe [] [1, 2, 3, 4, 5] (X1 [1, 2, 3, 4, 5]) (LagInt 2) 1 None 0
        None None = Inr [[Some ([1, 2, 3], [3, 4, 5], [])]]"
proof -
  have b: "lag_bounds (lag_array (LagInt 2)) (- 1) = Inr (1, 2)"
    "lag_bounds (lag_array (LagInt 2)) 0 = Inr (2, 2)"
    by (simp_all add: lag_bounds_def)
  have w: "lag_window [1, 2, 3, 4, 5 :: int] 2 2 1 = [1, 2, 3]"
    "lag_window [1, 2, 3, 4, 5 :: int] 2 2 2 = [1, 2, 3]"
    "y_window [1, 2, 3, 4, 5 :: int] 2 1 = [3, 4, 5]"
    "y_window [1, 2, 3, 4, 5 :: int] 2 2 = [3, 4, 5]"
    by (simp_all add: window_defs)
  have r: "\<forall>n. lag_too_large 1 2 n = lag_too_large 2 2 n"
    by (auto simp: lag_too_large_def)
  have e: "estimate_mi probe cprobe [] [1, 2, 3, 4, 5] (X1 [1, 2, 3, 4, 5]) (LagInt 2) 1 None (- 1)
        None None = Inr [[Some ([1, 2, 3], [3, 4, 5], [])]]"
    "estimate_mi probe cprobe [] [1, 2, 3, 4, 5] (X1 [1, 2, 3, 4, 5]) (LagInt 2) 1 None 0
        None None = Inr [[Some ([1, 2, 3], [3, 4, 5], [])]]"
    by (simp_all add: call_defs window_defs task_indices_single probe_def)
  from b w r e show ?thesis
    by simp
qed

text \<open>
  Claim C10, amended. Whether or not there is a conditioning series, \<open>min_lag\<close> and
  \<open>max_lag\<close> are the least and the greatest of all lags and all lags plus
  \<open>cond_lag\<close>, and a task without \<open>cond\<close> is cut with these bounds. Compared with
  the same call with \<open>cond_lag = 0\<close>: the lag-range check rejects every call it
  rejects with \<open>cond_lag = 0\<close>; on a call it accepts, the window of \<open>x\<close> is never
  longer in any task, and it is shorter exactly when \<open>cond_lag\<close> is positive, or
  negative with the smallest lag plus \<open>cond_lag\<close> below zero; and when the largest lag
  is not negative the window of \<open>y\<close> has the length of the window of \<open>x\<close> in both
  calls.
\<close>

theorem cond_lag_without_cond:
  assumes "lag_bounds lags 0 = Inr (min0, max0)" and "lag_bounds lags c = Inr (minc, maxc)"
    and "L \<in> set lags" and "length x = length y"
  shows "minc = min min0 (min0 + c) \<and> maxc = max max0 (max0 + c)
     \<and> lagged_mi est cest (x, y, L, maxc, minc, k, None, None, c) =
         est (lag_window x L maxc minc) (y_window y maxc minc) k
     \<and> (lag_too_large min0 max0 (length y) \<longrightarrow> lag_too_large minc maxc (length y))
     \<and> (\<not> lag_too_large minc maxc (length y) \<longrightarrow>
           length (lag_window x L maxc minc) \<le> length (lag_window x L max0 min0)
         \<and> (length (lag_window x L maxc minc) < length (lag_window x L max0 min0)
              \<longleftrightarrow> 0 < c \<or> (c < 0 \<and> min0 + c < 0))
         \<and> (0 \<le> max0 \<longrightarrow>
               length (y_window y maxc minc) = length (lag_window x L maxc minc)
             \<and> length (y_window y max0 min0) = length (lag_window x L max0 min0)))"
proof -
  note b = lag_bounds_cond_lag [OF assms(1,2)]
  note m0 = lag_bounds_member [OF assms(1,3)]
  note mc = lag_bounds_member [OF assms(2,3)]
  have call: "lagged_mi est cest (x, y, L, maxc, minc, k, None, None, c) =
         est (lag_window x L maxc minc) (y_window y maxc minc) k"
    by (simp add: masked_None)
  have mono: "lag_too_large minc maxc (length y)" if "lag_too_large min0 max0 (length y)"
    using that b by (auto simp: lag_too_large_def)
  have win: "length (lag_window x L maxc minc) \<le> length (lag_window x L max0 min0)
         \<and> (length (lag_window x L maxc minc) < length (lag_window x L max0 min0)
              \<longleftrightarrow> 0 < c \<or> (c < 0 \<and> min0 + c < 0))
         \<and> (0 \<le> max0 \<longrightarrow>
               length (y_window y maxc minc) = length (lag_window x L maxc minc)
             \<and> length (y_window y max0 min0) = length (lag_window x L max0 min0))"
    if okc: "\<not> lag_too_large minc maxc (length y)"
  proof -
    have ok0: "\<not> lag_too_large min0 max0 (length y)"
      using mono okc by blast
    have okxc: "\<not> lag_too_large minc maxc (length x)" and okx0: "\<not> lag_too_large min0 max0 (length x)"
      using okc ok0 assms(4) by simp_all
    note wc = lag_window_inrange(2,3) [OF okxc mc(1,2)]
    note w0 = lag_window_inrange(2,3) [OF okx0 m0(1,2)]
    have le: "length (lag_window x L maxc minc) \<le> length (lag_window x L max0 min0)"
      unfolding wc(1) w0(1) using b by (auto simp: min_def max_def)
    have lt: "length (lag_window x L maxc minc) < length (lag_window x L max0 min0)
              \<longleftrightarrow> 0 < c \<or> (c < 0 \<and> min0 + c < 0)"
      unfolding wc(1) w0(1) using b wc(2) w0(2) by (auto simp: min_def max_def)
    have yw: "length (y_window y maxc minc) = length (lag_window x L maxc minc)
             \<and> length (y_window y max0 min0) = length (lag_window x L max0 min0)"
      if "0 \<le> max0"
    proof -
      from that b(2) have "0 \<le> maxc"
        by simp
      from y_window_inrange(2) [OF okc this] y_window_inrange(2) [OF ok0 that] wc(1) w0(1)
      show ?thesis
        using assms(4) by simp
    qed
    from le lt yw show ?thesis
      by blast
  qed
  from b call mono win show ?thesis
    by blast
qed

text \<open>The theorem at the lag \<open>0\<close> with \<open>cond_lag = 1\<close> on five observations, where the
  windows lose one entry, with the three calls \<open>cond_lag = 1\<close>, \<open>5\<close> and \<open>0\<close>.\<close>

theorem cond_lag_without_cond_witness:
  "lag_bounds [0] 0 = Inr (0, 0) \<and> lag_bounds [0] 1 = Inr (0, 1)
   \<and> (0 :: int) \<in> set [0]
   \<and> length [1, 2, 3, 4, 5 :: int] = length [1, 2, 3, 4, 5 :: int]
   \<and> \<not> lag_too_large 0 1 (length [1, 2, 3, 4, 5 :: int])
   \<and> (0 :: int) \<le> 0
   \<and> lagged_mi probe cprobe ([1, 2, 3, 4, 5], [1, 2, 3, 4, 5], 0, 1, 0, 1, None, None, 1) =
        Inr ([2, 3, 4, 5], [2, 3, 4, 5], [])
   \<and> lagged_mi probe cprobe ([1, 2, 3, 4, 5], [1, 2, 3, 4, 5], 0, 0, 0, 1, None, None, 0) =
        Inr ([1, 2, 3, 4, 5], [1, 2, 3, 4, 5], [])
   \<and> length (lag_window [1, 2, 3, 4, 5 :: int] 0 1 0) < length (lag_window [1, 2, 3, 4, 5 :: int] 0 0 0)
   \<and> length (y_window [1, 2, 3, 4, 5 :: int] 1 0) = length (lag_window [1, 2, 3, 4, 5 :: int] 0 1 0)
   \<and> estimate_mi probe cprobe [] [1, 2, 3, 4, 5] (X1 [1, 2, 3, 4, 5]) (LagInt 0) 1 None 1 None
        None = Inr [[Some ([2, 3, 4, 5], [2, 3, 4, 5], [])]]
   \<and> estimate_mi probe cprobe [] [1, 2, 3, 4, 5] (X1 [1, 2, 3, 4, 5]) (LagInt 0) 1 None 5 None
        None = Inl (ValueError ''lag is too large, no observations left'')
   \<and> estimate_mi probe cprobe [] [1, 2, 3, 4, 5] (X1 [1, 2, 3, 4, 5]) (LagInt 0) 1 None 0 None
        None = Inr [[Some ([1, 2, 3, 4, 5], [1, 2, 3, 4, 5], [])]]"
proof -
  have h1: "lag_bounds [0] 0 = Inr (0, 0)" and h2: "lag_bounds [0] 1 = Inr (0, 1)"
    by (simp_all add: lag_bounds_def)
  have h3: "(0 :: int) \<in> set [0]"
    by simp
  have h4: "length [1, 2, 3, 4, 5 :: int] = length [1, 2, 3, 4, 5 :: int]"
    by simp
  have h5: "\<not> lag_too_large 0 1 (length [1, 2, 3, 4, 5 :: int])"
    by (simp add: lag_too_large_def)
  have h6: "(0 :: int) \<le> 0"
    by simp
  note t = cond_lag_without_cond [OF h1 h2 h3 h4, where est = probe and cest = cprobe and k = 1]
  from t h5 h6 have lens:
    "length (lag_window [1, 2, 3, 4, 5 :: int] 0 1 0) < length (lag_window [1, 2, 3, 4, 5 :: int] 0 0 0)"
    "length (y_window [1, 2, 3, 4, 5 :: int] 1 0) = length (lag_window [1, 2, 3, 4, 5 :: int] 0 1 0)"
    by simp_all
  have e1: "lagged_mi probe cprobe ([1, 2, 3, 4, 5], [1, 2, 3, 4, 5], 0, 1, 0, 1, None, None, 1) =
        Inr ([2, 3, 4, 5], [2, 3, 4, 5], [])"
    "lagged_mi probe cprobe ([1, 2, 3, 4, 5], [1, 2, 3, 4, 5], 0, 0, 0, 1, None, None, 0) =
        Inr ([1, 2, 3, 4, 5], [1, 2, 3, 4, 5], [])"
    by (simp_all add: window_defs probe_def)
  have e2: "estimate_mi probe cprobe [] [1, 2, 3, 4, 5] (X1 [1, 2, 3, 4, 5]) (LagInt 0) 1 None 1 None
        None = Inr [[Some ([2, 3, 4, 5], [2, 3, 4, 5], [])]]"
    "estimate_mi probe cprobe [] [1, 2, 3, 4, 5] (X1 [1, 2, 3, 4, 5]) (LagInt 0) 1 None 5 None
        None = Inl (ValueError ''lag is too large, no observations left'')"
    "estimate_mi probe cprobe [] [1, 2, 3, 4, 5] (X1 [1, 2, 3, 4, 5]) (LagInt 0) 1 None 0 None
        None = Inr [[Some ([1, 2, 3, 4, 5], [1, 2, 3, 4, 5], [])]]"
    by (simp_all add: call_defs window_defs task_indices_single probe_def)
  from h1 h2 h3 h5 lens e1 e2 show ?thesis
    by simp
qed

end
